theory Spec2Isabelle
  imports Complex_Main
begin

section \<open>Data model\<close>

text \<open>
  The JTD parser compiler of \<^verbatim>\<open>lib/compile/jtd/parse.ts\<close> walks a schema and emits
  the code of one parsing routine. Each generator function of the source is embedded
  as the meaning of the code it emits: a function from the input text and the cursor
  \<^verbatim>\<open>jsonPos\<close> to an outcome. The walk itself, with its construction-time errors and
  the in-flight registry, is embedded separately further down.
\<close>

datatype IntType = Int8 | Uint8 | Int16 | Uint16 | Int32 | Uint32

datatype JTDType = TBoolean | TString | TTimestamp | TFloat32 | TFloat64 | TInt IntType

text \<open>
  A schema object: every key that the compiler reads, absent keys as \<open>None\<close>
  (\<^verbatim>\<open>key in schema\<close> tests presence), \<^verbatim>\<open>nullable\<close> and
  \<^verbatim>\<open>additionalProperties\<close> by their truthiness, objects as association lists in
  enumeration order.
\<close>

datatype schema = Schema
  (elements: "schema option")
  (valuesS: "schema option")
  (discriminator: "string option")
  (mapping: "(string \<times> schema) list")
  (properties: "(string \<times> schema) list option")
  (optionalProperties: "(string \<times> schema) list option")
  (additionalProperties: bool)
  (enum: "string list option")
  (typeS: "JTDType option")
  (ref: "string option")
  (nullable: bool)

datatype JTDForm =
  FElements | FValues | FDiscriminator | FProperties | FOptionalProperties | FEnum | FType | FRef

text \<open>The values a parser builds; \<^verbatim>\<open>undefined\<close> is never one of them.\<close>

datatype jvalue =
  JNull | JBool bool | JNum rat | JStr string | JArr "jvalue list" | JObj "(string \<times> jvalue) list"

record perror =
  message :: string
  position :: nat

text \<open>
  How a piece of generated code ends: it falls through with a value and the cursor
  (\<open>Done\<close>); it runs \<^verbatim>\<open>parsingError\<close>, which stores its argument in the error slot
  and returns from the routine (\<open>Failed\<close>, with the stored value and the cursor);
  it throws (\<open>Thrown\<close>); or the fuel of the model ran out (\<open>Timeout\<close>).

  The objects that the emitted code builds are followed by their own properties
  only. An assignment to \<^verbatim>\<open>data["__proto__"]\<close> on such an object stores no own
  property: it goes to the accessor inherited from \<^verbatim>\<open>Object.prototype\<close>, which
  replaces the prototype of the object or does nothing. What the code does with a
  member named \<^verbatim>\<open>__proto__\<close>, and after it, depends on the prototype chain. Apart
  from the cases written out in \<open>parseEmptyProto\<close> and \<open>discriminatorBlock\<close>, the
  model stops at such a member with the outcome \<open>ProtoKey\<close> and says nothing
  about the rest of that run.
\<close>

datatype 'a outcome =
  Done 'a nat | Failed "perror option" nat | Thrown string | ProtoKey | Timeout

text \<open>What an invocation of a compiled routine gives back to its caller.\<close>

datatype presult =
  RValue jvalue | RPair "jvalue option" nat | RUndefined | RThrown string | RProtoKey | RTimeout

text \<open>
  The collaborators that are imported by the source and are not part of it: the token
  scanner of \<^verbatim>\<open>runtime/parseJson\<close> (each parsing function returns the pair of a
  value, \<open>None\<close> for \<^verbatim>\<open>undefined\<close>, and a position, and leaves its own
  \<^verbatim>\<open>error\<close> property, the third component), \<^verbatim>\<open>validTimestamp\<close>,
  \<^verbatim>\<open>hasRef\<close> and the table \<^verbatim>\<open>intRange\<close>. They are parameters of the model.
\<close>

record collaborators =
  skipWhitespace :: "string \<Rightarrow> nat \<Rightarrow> nat"
  parseJsonString :: "string \<Rightarrow> nat \<Rightarrow> string option \<times> nat \<times> perror option"
  parseJsonNumber :: "string \<Rightarrow> nat \<Rightarrow> nat option \<Rightarrow> rat option \<times> nat \<times> perror option"
  parseJson :: "string \<Rightarrow> nat \<Rightarrow> jvalue option \<times> nat \<times> perror option"
  validTimestamp :: "string \<Rightarrow> bool"
  hasRef :: "schema \<Rightarrow> bool"
  intRange :: "IntType \<Rightarrow> int \<times> int \<times> nat"

record ParseCxt =
  self :: collaborators
  definitions :: "(string \<times> schema) list"
  schema :: schema

section \<open>The code emitted by the generators\<close>

definition andThen :: "'a outcome \<Rightarrow> ('a \<Rightarrow> nat \<Rightarrow> 'b outcome) \<Rightarrow> 'b outcome" where
  "andThen m f =
     (case m of Done a p \<Rightarrow> f a p | Failed e p \<Rightarrow> Failed e p | Thrown s \<Rightarrow> Thrown s
      | ProtoKey \<Rightarrow> ProtoKey | Timeout \<Rightarrow> Timeout)"

text \<open>
  \<^verbatim>\<open>jsonSlice(len)\<close>: \<^verbatim>\<open>json[jsonPos]\<close> when \<open>len\<close> is 1 (\<^verbatim>\<open>undefined\<close>, here
  \<open>None\<close>, past the end), \<^verbatim>\<open>json.slice(jsonPos, jsonPos+len)\<close> otherwise.
\<close>

definition jsonSlice :: "string \<Rightarrow> nat \<Rightarrow> nat \<Rightarrow> string option" where
  "jsonSlice json jsonPos len =
     (if len = 1 then (if jsonPos < length json then Some [json ! jsonPos] else None)
      else Some (take len (drop jsonPos json)))"

text \<open>
  \<^verbatim>\<open>parsingError\<close> assigns the error slot and returns
  \<^verbatim>\<open>jsonPart ? [undefined, jsonPos] : undefined\<close>.
\<close>

definition parsingError :: "perror option \<Rightarrow> nat \<Rightarrow> 'a outcome" where
  "parsingError err jsonPos = Failed err jsonPos"

definition parsingErrorMsg :: "string \<Rightarrow> nat \<Rightarrow> 'a outcome" where
  "parsingErrorMsg msg jsonPos = parsingError (Some \<lparr>message = msg, position = jsonPos\<rparr>) jsonPos"

definition jsonSyntaxError :: "string \<Rightarrow> nat \<Rightarrow> 'a outcome" where
  "jsonSyntaxError json jsonPos =
     parsingErrorMsg
       (''unexpected token '' @ (case jsonSlice json jsonPos 1 of Some c \<Rightarrow> c | None \<Rightarrow> ''undefined''))
       jsonPos"

definition whitespace :: "ParseCxt \<Rightarrow> string \<Rightarrow> nat \<Rightarrow> nat" where
  "whitespace cxt json jsonPos = skipWhitespace (self cxt) json jsonPos"

definition tryParseToken ::
  "ParseCxt \<Rightarrow> string \<Rightarrow> string \<Rightarrow> (nat \<Rightarrow> 'a outcome) \<Rightarrow> (nat \<Rightarrow> 'a outcome) \<Rightarrow> nat \<Rightarrow> 'a outcome" where
  "tryParseToken cxt json tok fail success jsonPos =
     (let n = length tok; p = whitespace cxt json jsonPos
      in if jsonSlice json p n = Some tok then success (p + n) else fail p)"

definition parseToken :: "ParseCxt \<Rightarrow> string \<Rightarrow> string \<Rightarrow> nat \<Rightarrow> unit outcome" where
  "parseToken cxt json tok jsonPos = tryParseToken cxt json tok (jsonSyntaxError json) (Done ()) jsonPos"

text \<open>
  \<^verbatim>\<open>partialParse\<close>: \<^verbatim>\<open>[data, jsonPos] = parseFunc(json, jsonPos, args)\<close>, then
  \<^verbatim>\<open>if (data === undefined) parsingError(parseFunc.error)\<close>. The argument is what the
  call returned together with the callee's error property. The test reads the
  target \<^verbatim>\<open>data\<close> back. The definition is for a target that is a variable or
  \<^verbatim>\<open>data[key]\<close> with a key other than \<^verbatim>\<open>__proto__\<close>, which reads back what was
  assigned to it; the generators below never use it for \<^verbatim>\<open>data["__proto__"]\<close>
  (see \<open>parseEmptyProto\<close> and \<open>parsePropertyValue\<close>).
\<close>

definition partialParse :: "'a option \<times> nat \<times> perror option \<Rightarrow> 'a outcome" where
  "partialParse r =
     (case r of (Some v, p, e) \<Rightarrow> Done v p | (None, p, e) \<Rightarrow> parsingError e p)"

definition parseEmpty :: "ParseCxt \<Rightarrow> string \<Rightarrow> nat \<Rightarrow> jvalue outcome" where
  "parseEmpty cxt json jsonPos = partialParse (parseJson (self cxt) json jsonPos)"

text \<open>
  \<^verbatim>\<open>parseEmpty\<close> with the target \<^verbatim>\<open>data["__proto__"]\<close>, \<^verbatim>\<open>data\<close> an object that the
  emitted code has built: it has no own property \<^verbatim>\<open>__proto__\<close> and its prototype is
  \<^verbatim>\<open>Object.prototype\<close>. When the scan returns \<^verbatim>\<open>null\<close>, the assignment sets the
  prototype of the object to \<^verbatim>\<open>null\<close>, the target then reads back
  \<^verbatim>\<open>undefined\<close>, and the code runs \<^verbatim>\<open>parsingError\<close> with the error property of the
  scanner. In every other case the target reads back a value, the new prototype or
  the old one, and the code goes on.
\<close>

definition parseEmptyProto :: "ParseCxt \<Rightarrow> string \<Rightarrow> nat \<Rightarrow> 'a outcome" where
  "parseEmptyProto cxt json jsonPos =
     (case parseJson (self cxt) json jsonPos of
        (Some JNull, p, e) \<Rightarrow> parsingError e p
      | (_, p, e) \<Rightarrow> ProtoKey)"

definition dquote :: char where
  "dquote = CHR 0x22"

definition parseString :: "ParseCxt \<Rightarrow> string \<Rightarrow> nat \<Rightarrow> string outcome" where
  "parseString cxt json jsonPos =
     andThen (parseToken cxt json [dquote] jsonPos)
       (\<lambda>_ p. partialParse (parseJsonString (self cxt) json p))"

definition parseNumber :: "ParseCxt \<Rightarrow> string \<Rightarrow> nat option \<Rightarrow> nat \<Rightarrow> rat outcome" where
  "parseNumber cxt json maxDigits jsonPos =
     (let p = skipWhitespace (self cxt) json jsonPos
      in if (case jsonSlice json p 1 of Some [c] \<Rightarrow> c \<notin> set ''-0123456789'' | _ \<Rightarrow> True)
         then jsonSyntaxError json p
         else partialParse (parseJsonNumber (self cxt) json p maxDigits))"

definition parseBoolean ::
  "bool \<Rightarrow> (nat \<Rightarrow> jvalue outcome) \<Rightarrow> ParseCxt \<Rightarrow> string \<Rightarrow> nat \<Rightarrow> jvalue outcome" where
  "parseBoolean b fail cxt json jsonPos =
     tryParseToken cxt json (if b then ''true'' else ''false'') fail (\<lambda>p. Done (JBool b) p) jsonPos"

definition parseType :: "ParseCxt \<Rightarrow> string \<Rightarrow> nat \<Rightarrow> jvalue outcome" where
  "parseType cxt json jsonPos =
     (case typeS (schema cxt) of
        None \<Rightarrow> Thrown ''TypeError''
      | Some TBoolean \<Rightarrow>
          parseBoolean True (parseBoolean False (jsonSyntaxError json) cxt json) cxt json jsonPos
      | Some TString \<Rightarrow> andThen (parseString cxt json jsonPos) (\<lambda>s p. Done (JStr s) p)
      | Some TTimestamp \<Rightarrow>
          andThen (parseString cxt json jsonPos)
            (\<lambda>s p. if \<not> validTimestamp (self cxt) s then parsingErrorMsg ''invalid timestamp'' p
                    else Done (JStr s) p)
      | Some TFloat32 \<Rightarrow> andThen (parseNumber cxt json None jsonPos) (\<lambda>x p. Done (JNum x) p)
      | Some TFloat64 \<Rightarrow> andThen (parseNumber cxt json None jsonPos) (\<lambda>x p. Done (JNum x) p)
      | Some (TInt t) \<Rightarrow>
          (case intRange (self cxt) t of (lo, hi, maxDigits) \<Rightarrow>
             andThen (parseNumber cxt json (Some maxDigits) jsonPos)
               (\<lambda>x p. if x < of_int lo \<or> x > of_int hi
                       then parsingErrorMsg ''integer out of range'' p
                       else Done (JNum x) p)))"

text \<open>
  \<^verbatim>\<open>JSON.stringify\<close> of a string (the QuoteJSONString of ECMAScript on 8-bit
  characters): the quote and the backslash are escaped, the control characters below
  0x20 by their short escape or by \<^verbatim>\<open>\u00XX\<close>.
\<close>

definition hexDigit :: "nat \<Rightarrow> char" where
  "hexDigit n = ''0123456789abcdef'' ! (n mod 16)"

definition quoteChar :: "char \<Rightarrow> string" where
  "quoteChar c =
     (if c = CHR 0x08 then [CHR 0x5C, CHR ''b'']
      else if c = CHR 0x09 then [CHR 0x5C, CHR ''t'']
      else if c = CHR 0x0A then [CHR 0x5C, CHR ''n'']
      else if c = CHR 0x0C then [CHR 0x5C, CHR ''f'']
      else if c = CHR 0x0D then [CHR 0x5C, CHR ''r'']
      else if c = dquote then [CHR 0x5C, dquote]
      else if c = CHR 0x5C then [CHR 0x5C, CHR 0x5C]
      else if (of_char c :: nat) < 32
        then [CHR 0x5C, CHR ''u'', CHR ''0'', CHR ''0'',
              hexDigit ((of_char c :: nat) div 16), hexDigit (of_char c :: nat)]
      else [c])"

definition JSON_stringify :: "string \<Rightarrow> string" where
  "JSON_stringify s = [dquote] @ concat (map quoteChar s) @ [dquote]"

text \<open>
  \<^verbatim>\<open>parseEnum\<close>: after the opening quote, the chain
  \<^verbatim>\<open>if (false) else if (jsonSlice(valueStr.length) === valueStr) ... else jsonSyntaxError\<close>,
  one branch per member, in the order of the array.
\<close>

fun enumChain :: "string \<Rightarrow> string list \<Rightarrow> nat \<Rightarrow> jvalue outcome" where
  "enumChain json [] jsonPos = jsonSyntaxError json jsonPos"
| "enumChain json (v # enumSch) jsonPos =
     (let valueStr = tl (JSON_stringify v)
      in if jsonSlice json jsonPos (length valueStr) = Some valueStr
         then Done (JStr v) (jsonPos + length valueStr)
         else enumChain json enumSch jsonPos)"

definition parseEnum :: "ParseCxt \<Rightarrow> string \<Rightarrow> nat \<Rightarrow> jvalue outcome" where
  "parseEnum cxt json jsonPos =
     (case enum (schema cxt) of
        None \<Rightarrow> Thrown ''TypeError''
      | Some enumSch \<Rightarrow>
          andThen (parseToken cxt json [dquote] jsonPos) (\<lambda>_ p. enumChain json enumSch p))"

subsection \<open>Objects under construction\<close>

text \<open>
  \<^verbatim>\<open>data[key] = v\<close> for a key other than \<^verbatim>\<open>__proto__\<close>: the own property \<open>key\<close>
  is created or updated, an own key keeps its place. (This is also how the generic
  scan defines the members of the objects it returns, whatever their names.)
\<close>

fun objSet :: "(string \<times> jvalue) list \<Rightarrow> string \<Rightarrow> jvalue \<Rightarrow> (string \<times> jvalue) list" where
  "objSet [] key v = [(key, v)]"
| "objSet ((k, w) # rest) key v = (if k = key then (k, v) # rest else (k, w) # objSet rest key v)"

text \<open>\<^verbatim>\<open>isOwnProperty(gen, data, key)\<close>, the \<^verbatim>\<open>hasOwnProperty\<close> test.\<close>

definition isOwnProperty :: "(string \<times> jvalue) list \<Rightarrow> string \<Rightarrow> bool" where
  "isOwnProperty data key = (key \<in> set (map fst data))"

definition checkDuplicateProperty :: "(string \<times> jvalue) list \<Rightarrow> string \<Rightarrow> nat \<Rightarrow> unit outcome" where
  "checkDuplicateProperty data key jsonPos =
     (if isOwnProperty data key then Thrown (''JSON: duplicate property '' @ key)
      else Done () jsonPos)"

subsection \<open>Item loops\<close>

text \<open>
  \<^verbatim>\<open>tryParseItems\<close> emits
  \<^verbatim>\<open>for (; jsonPos<jsonLen && json[jsonPos]!==endToken;) { block; tryParseToken(",", break) }\<close>.
  The block works on the local state \<open>s\<close> of the loop and says whether it ran
  \<^verbatim>\<open>break\<close>. Every iteration takes one unit of fuel.
\<close>

fun tryParseItems ::
  "nat \<Rightarrow> ParseCxt \<Rightarrow> string \<Rightarrow> string \<Rightarrow> ('s \<Rightarrow> nat \<Rightarrow> (bool \<times> 's) outcome) \<Rightarrow> 's \<Rightarrow> nat \<Rightarrow> 's outcome" where
  "tryParseItems 0 cxt json endToken block s jsonPos =
     (if jsonPos < length json \<and> jsonSlice json jsonPos 1 \<noteq> Some endToken then Timeout
      else Done s jsonPos)"
| "tryParseItems (Suc n) cxt json endToken block s jsonPos =
     (if jsonPos < length json \<and> jsonSlice json jsonPos 1 \<noteq> Some endToken then
        andThen (block s jsonPos)
          (\<lambda>r p. if fst r then Done (snd r) p
                  else tryParseToken cxt json '','' (\<lambda>p'. Done (snd r) p')
                         (\<lambda>p'. tryParseItems n cxt json endToken block (snd r) p') p)
      else Done s jsonPos)"

definition parseItems ::
  "nat \<Rightarrow> ParseCxt \<Rightarrow> string \<Rightarrow> string \<Rightarrow> ('s \<Rightarrow> nat \<Rightarrow> (bool \<times> 's) outcome) \<Rightarrow> 's \<Rightarrow> nat \<Rightarrow> 's outcome" where
  "parseItems n cxt json endToken block s jsonPos =
     andThen (tryParseItems n cxt json endToken block s jsonPos)
       (\<lambda>s' p. andThen (parseToken cxt json endToken p) (\<lambda>_ p'. Done s' p'))"

text \<open>A block that never breaks.\<close>

definition noBreak :: "'s outcome \<Rightarrow> (bool \<times> 's) outcome" where
  "noBreak m = andThen m (\<lambda>s p. Done (False, s) p)"

subsection \<open>Structured forms\<close>

text \<open>
  The generators below call \<^verbatim>\<open>parseCode\<close> on sub-schemas; it is their first
  argument \<open>pc\<close>, and \<open>n\<close> is the fuel of their loops. The value returned is the one
  the emitted code leaves in \<^verbatim>\<open>cxt.data\<close>.
\<close>

type_synonym codeParser = "ParseCxt \<Rightarrow> string \<Rightarrow> nat \<Rightarrow> jvalue outcome"

definition parseElements :: "codeParser \<Rightarrow> nat \<Rightarrow> ParseCxt \<Rightarrow> string \<Rightarrow> nat \<Rightarrow> jvalue outcome" where
  "parseElements pc n cxt json jsonPos =
     (case elements (schema cxt) of
        None \<Rightarrow> Thrown ''TypeError''
      | Some sch \<Rightarrow>
          andThen (parseToken cxt json ''['' jsonPos)
            (\<lambda>_ p. andThen
               (parseItems n cxt json '']''
                  (\<lambda>arr q. noBreak (andThen (pc (cxt\<lparr>schema := sch\<rparr>) json q)
                                       (\<lambda>el q'. Done (arr @ [el]) q')))
                  [] p)
               (\<lambda>arr p'. Done (JArr arr) p')))"

text \<open>
  \<^verbatim>\<open>parsePropertyValue\<close> runs \<^verbatim>\<open>parseCode\<close> with \<^verbatim>\<open>data[key]\<close> as its target;
  with the key \<^verbatim>\<open>__proto__\<close> that target is not an own property.
\<close>

definition parsePropertyValue ::
  "codeParser \<Rightarrow> ParseCxt \<Rightarrow> string \<Rightarrow> string \<Rightarrow> schema \<Rightarrow> (string \<times> jvalue) list \<Rightarrow> nat
     \<Rightarrow> (string \<times> jvalue) list outcome" where
  "parsePropertyValue pc cxt json key sch data jsonPos =
     (if key = ''__proto__'' then ProtoKey
      else andThen (pc (cxt\<lparr>schema := sch\<rparr>) json jsonPos) (\<lambda>v p. Done (objSet data key v) p))"

definition parseKeyValue ::
  "codeParser \<Rightarrow> ParseCxt \<Rightarrow> string \<Rightarrow> schema \<Rightarrow> (string \<times> jvalue) list \<Rightarrow> nat
     \<Rightarrow> (string \<times> jvalue) list outcome" where
  "parseKeyValue pc cxt json sch data jsonPos =
     andThen (parseString cxt json jsonPos)
       (\<lambda>key p. andThen (checkDuplicateProperty data key p)
          (\<lambda>_ p1. andThen (parseToken cxt json '':'' p1)
             (\<lambda>_ p2. parsePropertyValue pc cxt json key sch data p2)))"

definition parseValues :: "codeParser \<Rightarrow> nat \<Rightarrow> ParseCxt \<Rightarrow> string \<Rightarrow> nat \<Rightarrow> jvalue outcome" where
  "parseValues pc n cxt json jsonPos =
     (case valuesS (schema cxt) of
        None \<Rightarrow> Thrown ''TypeError''
      | Some sch \<Rightarrow>
          andThen (parseToken cxt json ''{'' jsonPos)
            (\<lambda>_ p. andThen
               (parseItems n cxt json ''}''
                  (\<lambda>data q. noBreak (parseKeyValue pc cxt json sch data q)) [] p)
               (\<lambda>data p'. Done (JObj data) p')))"

text \<open>
  \<^verbatim>\<open>parseDefinedProperty\<close> adds one \<^verbatim>\<open>else if (key === prop)\<close> branch per
  property; \<open>rest\<close> is the remainder of the chain.
\<close>

fun parseDefinedProperty ::
  "codeParser \<Rightarrow> ParseCxt \<Rightarrow> string \<Rightarrow> string \<Rightarrow> (string \<times> schema) list \<Rightarrow> (string \<times> jvalue) list
     \<Rightarrow> (nat \<Rightarrow> (string \<times> jvalue) list outcome) \<Rightarrow> nat \<Rightarrow> (string \<times> jvalue) list outcome" where
  "parseDefinedProperty pc cxt json key [] data rest jsonPos = rest jsonPos"
| "parseDefinedProperty pc cxt json key ((prop, sch) # schemas) data rest jsonPos =
     (if key = prop then parsePropertyValue pc cxt json key sch data jsonPos
      else parseDefinedProperty pc cxt json key schemas data rest jsonPos)"

text \<open>\<^verbatim>\<open>if (discriminator)\<close> on an optional string: defined and not empty.\<close>

definition truthy :: "string option \<Rightarrow> bool" where
  "truthy d = (d \<noteq> None \<and> d \<noteq> Some [])"

definition optObj :: "(string \<times> schema) list option \<Rightarrow> (string \<times> schema) list" where
  "optObj schemas = (case schemas of None \<Rightarrow> [] | Some kvs \<Rightarrow> kvs)"

text \<open>
  The chain of \<^verbatim>\<open>parseSchemaProperties\<close> from \<^verbatim>\<open>gen.if(false)\<close> to
  \<^verbatim>\<open>gen.endIf()\<close>: required properties, optional properties, the discriminator
  tag when there is one, and the \<^verbatim>\<open>else\<close> branch.
\<close>

definition propertyChain ::
  "codeParser \<Rightarrow> ParseCxt \<Rightarrow> string \<Rightarrow> string option \<Rightarrow> string \<Rightarrow> (string \<times> jvalue) list \<Rightarrow> nat
     \<Rightarrow> (string \<times> jvalue) list outcome" where
  "propertyChain pc cxt json disc key data jsonPos =
     parseDefinedProperty pc cxt json key (optObj (properties (schema cxt))) data
       (parseDefinedProperty pc cxt json key (optObj (optionalProperties (schema cxt))) data
          (\<lambda>p. if truthy disc \<and> Some key = disc
                then andThen (parseString cxt json p) (\<lambda>tag p'. Done data p')
                else if additionalProperties (schema cxt)
                then (if key = ''__proto__'' then parseEmptyProto cxt json p
                      else andThen (parseEmpty cxt json p) (\<lambda>v p'. Done (objSet data key v) p'))
                else parsingErrorMsg (''property '' @ key @ '' not allowed'') p))
       jsonPos"

text \<open>
  The block that \<^verbatim>\<open>parseSchemaProperties\<close> passes to \<^verbatim>\<open>parseItems\<close>. Then
  \<^verbatim>\<open>parseSchemaProperties\<close> itself: when \<^verbatim>\<open>properties\<close> is present, the emitted
  code tests \<^verbatim>\<open>hasOwnProperty\<close> for each of its names after the loop. For
  \<^verbatim>\<open>properties: {}\<close> the generator calls \<^verbatim>\<open>and()\<close> without arguments, which
  throws a \<^verbatim>\<open>TypeError\<close> while the code is generated (see
  \<open>genSchemaProperties\<close>): no routine is built, and \<open>Thrown ''TypeError''\<close> stands
  for that here.
\<close>

definition propertiesBlock ::
  "codeParser \<Rightarrow> ParseCxt \<Rightarrow> string \<Rightarrow> string option \<Rightarrow> (string \<times> jvalue) list \<Rightarrow> nat
     \<Rightarrow> (string \<times> jvalue) list outcome" where
  "propertiesBlock pc cxt json disc data jsonPos =
     andThen (parseString cxt json jsonPos)
       (\<lambda>key p. andThen
          (if truthy disc
           then (if Some key \<noteq> disc then checkDuplicateProperty data key p else Done () p)
           else checkDuplicateProperty data key p)
          (\<lambda>_ p1. andThen (parseToken cxt json '':'' p1)
             (\<lambda>_ p2. propertyChain pc cxt json disc key data p2)))"

definition parseSchemaProperties ::
  "codeParser \<Rightarrow> nat \<Rightarrow> ParseCxt \<Rightarrow> string \<Rightarrow> string option \<Rightarrow> (string \<times> jvalue) list \<Rightarrow> nat
     \<Rightarrow> (string \<times> jvalue) list outcome" where
  "parseSchemaProperties pc n cxt json disc data jsonPos =
     (if properties (schema cxt) = Some [] then Thrown ''TypeError''
      else andThen
        (parseItems n cxt json ''}''
           (\<lambda>d q. noBreak (propertiesBlock pc cxt json disc d q)) data jsonPos)
        (\<lambda>d p. case properties (schema cxt) of
                  None \<Rightarrow> Done d p
                | Some props \<Rightarrow>
                    if \<not> list_all (\<lambda>prop. isOwnProperty d prop) (map fst props)
                    then parsingErrorMsg ''missing required properties'' p
                    else Done d p))"

definition parseProperties :: "codeParser \<Rightarrow> nat \<Rightarrow> ParseCxt \<Rightarrow> string \<Rightarrow> nat \<Rightarrow> jvalue outcome" where
  "parseProperties pc n cxt json jsonPos =
     andThen (parseToken cxt json ''{'' jsonPos)
       (\<lambda>_ p. andThen (parseSchemaProperties pc n cxt json None [] p)
          (\<lambda>data p'. Done (JObj data) p'))"

subsection \<open>Discriminator\<close>

text \<open>
  The block of the first pass of \<^verbatim>\<open>parseDiscriminator\<close>; the state of the loop is
  the variable \<^verbatim>\<open>tag\<close> (\<open>None\<close> while \<^verbatim>\<open>undefined\<close>) and the object \<^verbatim>\<open>data\<close>.
  For a tag field named \<^verbatim>\<open>__proto__\<close> the assignment \<^verbatim>\<open>data[key] = tag\<close> hands a
  string to the inherited accessor, which does nothing with it: the object stays as
  it is.
\<close>

definition discriminatorBlock ::
  "ParseCxt \<Rightarrow> string \<Rightarrow> string option \<times> (string \<times> jvalue) list \<Rightarrow> nat
     \<Rightarrow> (bool \<times> string option \<times> (string \<times> jvalue) list) outcome" where
  "discriminatorBlock cxt json st jsonPos =
     andThen (parseString cxt json jsonPos)
       (\<lambda>key p. andThen (parseToken cxt json '':'' p)
          (\<lambda>_ p1. if Some key = discriminator (schema cxt)
                   then andThen (parseString cxt json p1)
                          (\<lambda>tag p2. Done (True, Some tag,
                                      if key = ''__proto__'' then snd st
                                      else objSet (snd st) key (JStr tag)) p2)
                   else andThen (parseEmpty cxt json p1) (\<lambda>value p2. Done (False, st) p2)))"

text \<open>
  The chain \<^verbatim>\<open>else if (tag === tagValue) parseSchemaProperties(mapping[tagValue], discriminator)\<close>,
  closed by the \<^verbatim>\<open>else\<close> branch.
\<close>

fun mappingChain ::
  "codeParser \<Rightarrow> nat \<Rightarrow> ParseCxt \<Rightarrow> string \<Rightarrow> string \<Rightarrow> (string \<times> schema) list
     \<Rightarrow> (string \<times> jvalue) list \<Rightarrow> nat \<Rightarrow> (string \<times> jvalue) list outcome" where
  "mappingChain pc n cxt json tag [] data jsonPos =
     parsingErrorMsg ''discriminator value not in schema'' jsonPos"
| "mappingChain pc n cxt json tag ((tagValue, sch) # branches) data jsonPos =
     (if tag = tagValue
      then parseSchemaProperties pc n (cxt\<lparr>schema := sch\<rparr>) json (discriminator (schema cxt)) data jsonPos
      else mappingChain pc n cxt json tag branches data jsonPos)"

definition parseDiscriminator :: "codeParser \<Rightarrow> nat \<Rightarrow> ParseCxt \<Rightarrow> string \<Rightarrow> nat \<Rightarrow> jvalue outcome" where
  "parseDiscriminator pc n cxt json jsonPos =
     andThen (parseToken cxt json ''{'' jsonPos)
       (\<lambda>_ startPos.
          andThen (tryParseItems n cxt json ''}'' (discriminatorBlock cxt json) (None, []) startPos)
            (\<lambda>st _. case fst st of
                       None \<Rightarrow> parsingErrorMsg ''discriminator tag not found'' startPos
                     | Some tag \<Rightarrow>
                         andThen (mappingChain pc n cxt json tag (mapping (schema cxt)) (snd st) startPos)
                           (\<lambda>data p. Done (JObj data) p)))"

subsection \<open>The routine and references\<close>

text \<open>
  The body emitted by \<^verbatim>\<open>parserFunction\<close>. The routine first stores
  \<^verbatim>\<open>undefined\<close> in its error slot, whatever the slot held (\<open>err0\<close>); it returns what
  it returns together with the content of the slot at that moment.
\<close>

definition returnFrom :: "bool \<Rightarrow> perror option \<Rightarrow> presult outcome \<Rightarrow> presult \<times> perror option" where
  "returnFrom jsonPart slot m =
     (case m of
        Done r p \<Rightarrow> (r, slot)
      | Failed e p \<Rightarrow> (if jsonPart then RPair None p else RUndefined, e)
      | Thrown x \<Rightarrow> (RThrown x, slot)
      | ProtoKey \<Rightarrow> (RProtoKey, slot)
      | Timeout \<Rightarrow> (RTimeout, slot))"

definition parserFunction ::
  "codeParser \<Rightarrow> ParseCxt \<Rightarrow> string \<Rightarrow> nat option \<Rightarrow> bool \<Rightarrow> perror option \<Rightarrow> presult \<times> perror option" where
  "parserFunction pc cxt json jsonPos jsonPart err0 =
     (let slot = None;
          pos = (case jsonPos of None \<Rightarrow> 0 | Some p \<Rightarrow> p);
          jsonLen = length json
      in returnFrom jsonPart slot
           (andThen (pc cxt json pos)
              (\<lambda>data p. let p' = whitespace cxt json p
                         in if jsonPart then Done (RPair (Some data) p') p'
                            else if p' = jsonLen then Done (RValue data) p'
                            else jsonSyntaxError json p')))"

text \<open>
  \<^verbatim>\<open>definitions[ref]\<close> reads the table, a plain object, through its prototype chain:
  a name that the table does not have itself is still found when it is a member of
  \<^verbatim>\<open>Object.prototype\<close>. The value found there is truthy and is then used as a
  schema. A function, and for \<^verbatim>\<open>__proto__\<close> the prototype object itself, has none of
  the keys that the compiler reads: it is read as the schema without keys. The
  function \<^verbatim>\<open>Object\<close>, found under \<^verbatim>\<open>constructor\<close>, has the member \<^verbatim>\<open>values\<close>, a
  function: it is read as a values schema.
\<close>

definition inheritedDefinitions :: "(string \<times> schema) list" where
  "inheritedDefinitions =
     (let noKeys = Schema None None None [] None None False None None None False
      in [(''constructor'', Schema None (Some noKeys) None [] None None False None None None False),
          (''__defineGetter__'', noKeys), (''__defineSetter__'', noKeys),
          (''hasOwnProperty'', noKeys), (''__lookupGetter__'', noKeys),
          (''__lookupSetter__'', noKeys), (''isPrototypeOf'', noKeys),
          (''propertyIsEnumerable'', noKeys), (''toString'', noKeys), (''valueOf'', noKeys),
          (''__proto__'', noKeys), (''toLocaleString'', noKeys)])"

definition lookupDefinition :: "(string \<times> schema) list \<Rightarrow> string \<Rightarrow> schema option" where
  "lookupDefinition defs r =
     (case map_of defs r of Some sch \<Rightarrow> Some sch | None \<Rightarrow> map_of inheritedDefinitions r)"

text \<open>
  \<^verbatim>\<open>parseRef\<close>. A target without references is generated in place. Otherwise the
  emitted code is \<^verbatim>\<open>partialParse\<close> of the routine compiled for the target, called
  with \<^verbatim>\<open>jsonPart = true\<close>: a result that is not a pair cannot be destructured. For
  a name without a definition nothing is emitted, \<^verbatim>\<open>compileParser\<close> has thrown.
\<close>

definition parseRef :: "codeParser \<Rightarrow> ParseCxt \<Rightarrow> string \<Rightarrow> nat \<Rightarrow> jvalue outcome" where
  "parseRef pc cxt json jsonPos =
     (case ref (schema cxt) of
        None \<Rightarrow> Thrown ''MissingRefError''
      | Some r \<Rightarrow>
          (case lookupDefinition (definitions cxt) r of
             None \<Rightarrow> Thrown ''MissingRefError''
           | Some refSchema \<Rightarrow>
               if \<not> hasRef (self cxt) refSchema then pc (cxt\<lparr>schema := refSchema\<rparr>) json jsonPos
               else (case parserFunction pc (cxt\<lparr>schema := refSchema\<rparr>) json (Some jsonPos) True None of
                       (RPair (Some v) p, e) \<Rightarrow> Done v p
                     | (RPair None p, e) \<Rightarrow> parsingError e p
                     | (RThrown x, e) \<Rightarrow> Thrown x
                     | (RProtoKey, e) \<Rightarrow> ProtoKey
                     | (RTimeout, e) \<Rightarrow> Timeout
                     | (RValue v, e) \<Rightarrow> Thrown ''TypeError''
                     | (RUndefined, e) \<Rightarrow> Thrown ''TypeError'')))"

subsection \<open>Form selection\<close>

definition parseNullable :: "ParseCxt \<Rightarrow> string \<Rightarrow> (nat \<Rightarrow> jvalue outcome) \<Rightarrow> nat \<Rightarrow> jvalue outcome" where
  "parseNullable cxt json parseForm jsonPos =
     (if \<not> nullable (schema cxt) then parseForm jsonPos
      else tryParseToken cxt json ''null'' parseForm (\<lambda>p. Done JNull p) jsonPos)"

text \<open>
  Modelled from the spec: the constant \<^verbatim>\<open>jtdForms\<close> of \<^verbatim>\<open>./types\<close> is not part
  of the source at hand; the spec gives the fixed priority order elements, values,
  discriminator, properties, optionalProperties, enum, type, ref.
\<close>

definition jtdForms :: "JTDForm list" where
  "jtdForms = [FElements, FValues, FDiscriminator, FProperties, FOptionalProperties, FEnum, FType, FRef]"

text \<open>\<^verbatim>\<open>key in cxt.schema\<close>.\<close>

fun hasKey :: "JTDForm \<Rightarrow> schema \<Rightarrow> bool" where
  "hasKey FElements sch = (elements sch \<noteq> None)"
| "hasKey FValues sch = (valuesS sch \<noteq> None)"
| "hasKey FDiscriminator sch = (discriminator sch \<noteq> None)"
| "hasKey FProperties sch = (properties sch \<noteq> None)"
| "hasKey FOptionalProperties sch = (optionalProperties sch \<noteq> None)"
| "hasKey FEnum sch = (enum sch \<noteq> None)"
| "hasKey FType sch = (typeS sch \<noteq> None)"
| "hasKey FRef sch = (ref sch \<noteq> None)"

fun genParse :: "JTDForm \<Rightarrow> codeParser \<Rightarrow> nat \<Rightarrow> ParseCxt \<Rightarrow> string \<Rightarrow> nat \<Rightarrow> jvalue outcome" where
  "genParse FElements pc n = parseElements pc n"
| "genParse FValues pc n = parseValues pc n"
| "genParse FDiscriminator pc n = parseDiscriminator pc n"
| "genParse FProperties pc n = parseProperties pc n"
| "genParse FOptionalProperties pc n = parseProperties pc n"
| "genParse FEnum pc n = parseEnum"
| "genParse FType pc n = parseType"
| "genParse FRef pc n = parseRef pc"

text \<open>
  \<^verbatim>\<open>parseCode\<close>: the first key of \<^verbatim>\<open>jtdForms\<close> that the schema has selects the
  generator, \<^verbatim>\<open>parseEmpty\<close> when it has none. The fuel bounds the nesting of the
  calls of the emitted code and the iterations of its loops.
\<close>

definition selectForm :: "schema \<Rightarrow> JTDForm option" where
  "selectForm sch = find (\<lambda>key. hasKey key sch) jtdForms"

fun parseCode :: "nat \<Rightarrow> ParseCxt \<Rightarrow> string \<Rightarrow> nat \<Rightarrow> jvalue outcome" where
  "parseCode 0 cxt json jsonPos = Timeout"
| "parseCode (Suc n) cxt json jsonPos =
     parseNullable cxt json
       (case selectForm (schema cxt) of
          Some form \<Rightarrow> genParse form (parseCode n) n cxt json
        | None \<Rightarrow> parseEmpty cxt json)
       jsonPos"

text \<open>The routine compiled for the schema of \<open>cxt\<close>, run with fuel \<open>n\<close>.\<close>

definition parse ::
  "nat \<Rightarrow> ParseCxt \<Rightarrow> string \<Rightarrow> nat option \<Rightarrow> bool \<Rightarrow> perror option \<Rightarrow> presult \<times> perror option" where
  "parse n cxt json jsonPos jsonPart err0 = parserFunction (parseCode n) cxt json jsonPos jsonPart err0"

section \<open>An instance of the collaborators\<close>

text \<open>
  Modelled from the spec: the token scanner, \<^verbatim>\<open>validTimestamp\<close>, \<^verbatim>\<open>hasRef\<close> and
  \<^verbatim>\<open>intRange\<close> are not part of the source at hand. The spec gives the scanner by
  its signatures only (skipWhitespace(text,pos)->pos, parseJsonString(text,pos)->
  (string|failure,pos), parseJsonNumber(text,pos,maxDigits?)->(number|failure,pos),
  parseJson(text,pos)->(anyValue|failure,pos), validTimestamp(string)->bool), says
  that a reference target is generated in place when its subtree is reference-free,
  and that a fixed-width integer has a closed range and a digit-count bound. The
  instance below serves to run the parsers on concrete texts: strings are scanned up
  to the closing quote and a backslash is reported as a failure (escapes are not
  decoded), numbers are integers.
\<close>

definition isWs :: "char \<Rightarrow> bool" where
  "isWs c = (c = CHR '' '' \<or> c = CHR 0x09 \<or> c = CHR 0x0A \<or> c = CHR 0x0D)"

definition isDigit :: "char \<Rightarrow> bool" where
  "isDigit c = (48 \<le> (of_char c :: nat) \<and> (of_char c :: nat) \<le> 57)"

definition refSkipWhitespace :: "string \<Rightarrow> nat \<Rightarrow> nat" where
  "refSkipWhitespace json pos = pos + length (takeWhile isWs (drop pos json))"

definition scanError :: "string \<Rightarrow> nat \<Rightarrow> perror option" where
  "scanError json pos =
     Some \<lparr>message = (if pos < length json then ''unexpected token '' @ [json ! pos] else ''unexpected end''),
           position = pos\<rparr>"

definition refParseJsonString :: "string \<Rightarrow> nat \<Rightarrow> string option \<times> nat \<times> perror option" where
  "refParseJsonString json pos =
     (let s = takeWhile (\<lambda>c. c \<noteq> dquote \<and> c \<noteq> CHR 0x5C) (drop pos json);
          q = pos + length s
      in if q < length json \<and> json ! q = dquote then (Some s, q + 1, None)
         else (None, q, scanError json q))"

definition digitsValue :: "string \<Rightarrow> nat" where
  "digitsValue ds = foldl (\<lambda>a c. 10 * a + ((of_char c :: nat) - 48)) 0 ds"

definition refParseJsonNumber :: "string \<Rightarrow> nat \<Rightarrow> nat option \<Rightarrow> rat option \<times> nat \<times> perror option" where
  "refParseJsonNumber json pos maxDigits =
     (let neg = (pos < length json \<and> json ! pos = CHR ''-'');
          p1 = (if neg then pos + 1 else pos);
          ds = takeWhile isDigit (drop p1 json);
          q = p1 + length ds
      in if ds = [] \<or> (case maxDigits of Some m \<Rightarrow> m < length ds | None \<Rightarrow> False)
         then (None, q, scanError json q)
         else (Some (if neg then - of_nat (digitsValue ds) else of_nat (digitsValue ds)), q, None))"

definition charAt :: "string \<Rightarrow> nat \<Rightarrow> char \<Rightarrow> bool" where
  "charAt json pos c = (pos < length json \<and> json ! pos = c)"

definition scanFail :: "string \<Rightarrow> nat \<Rightarrow> jvalue option \<times> nat \<times> perror option" where
  "scanFail json pos = (None, pos, scanError json pos)"

text \<open>
  The items of an array and the members of an object after the opening bracket;
  \<open>sv\<close> scans one value.
\<close>

fun scanItems ::
  "(string \<Rightarrow> nat \<Rightarrow> jvalue option \<times> nat \<times> perror option) \<Rightarrow> nat \<Rightarrow> string \<Rightarrow> nat \<Rightarrow> jvalue list
     \<Rightarrow> jvalue option \<times> nat \<times> perror option" where
  "scanItems sv 0 json pos acc = scanFail json pos"
| "scanItems sv (Suc n) json pos acc =
     (case sv json pos of
        (None, q, e) \<Rightarrow> (None, q, e)
      | (Some v, q, e) \<Rightarrow>
          (let q1 = refSkipWhitespace json q
           in if charAt json q1 (CHR '','') then scanItems sv n json (q1 + 1) (acc @ [v])
              else if charAt json q1 (CHR '']'') then (Some (JArr (acc @ [v])), q1 + 1, None)
              else scanFail json q1))"

definition scanMember ::
  "(string \<Rightarrow> nat \<Rightarrow> jvalue option \<times> nat \<times> perror option) \<Rightarrow> string \<Rightarrow> nat
     \<Rightarrow> (string \<times> jvalue) option \<times> nat \<times> perror option" where
  "scanMember sv json pos =
     (let p = refSkipWhitespace json pos
      in if \<not> charAt json p dquote then (None, p, scanError json p)
         else
           (case refParseJsonString json (p + 1) of
              (None, q, e) \<Rightarrow> (None, q, e)
            | (Some key, q, e) \<Rightarrow>
                (let q1 = refSkipWhitespace json q
                 in if \<not> charAt json q1 (CHR '':'') then (None, q1, scanError json q1)
                    else
                      (case sv json (q1 + 1) of
                         (None, r, e') \<Rightarrow> (None, r, e')
                       | (Some v, r, e') \<Rightarrow> (Some (key, v), r, e')))))"

fun scanMembers ::
  "(string \<Rightarrow> nat \<Rightarrow> jvalue option \<times> nat \<times> perror option) \<Rightarrow> nat \<Rightarrow> string \<Rightarrow> nat
     \<Rightarrow> (string \<times> jvalue) list \<Rightarrow> jvalue option \<times> nat \<times> perror option" where
  "scanMembers sv 0 json pos acc = scanFail json pos"
| "scanMembers sv (Suc n) json pos acc =
     (case scanMember sv json pos of
        (None, r, e) \<Rightarrow> (None, r, e)
      | (Some kv, r, e) \<Rightarrow>
          (let r1 = refSkipWhitespace json r
           in if charAt json r1 (CHR '','')
              then scanMembers sv n json (r1 + 1) (objSet acc (fst kv) (snd kv))
              else if charAt json r1 (CHR ''}'')
              then (Some (JObj (objSet acc (fst kv) (snd kv))), r1 + 1, None)
              else scanFail json r1))"

definition scanScalar :: "string \<Rightarrow> nat \<Rightarrow> jvalue option \<times> nat \<times> perror option" where
  "scanScalar json p =
     (if take 4 (drop p json) = ''null'' then (Some JNull, p + 4, None)
      else if take 4 (drop p json) = ''true'' then (Some (JBool True), p + 4, None)
      else if take 5 (drop p json) = ''false'' then (Some (JBool False), p + 5, None)
      else if charAt json p dquote then
        (case refParseJsonString json (p + 1) of
           (Some s, q, e) \<Rightarrow> (Some (JStr s), q, e)
         | (None, q, e) \<Rightarrow> (None, q, e))
      else
        (case refParseJsonNumber json p None of
           (Some x, q, e) \<Rightarrow> (Some (JNum x), q, e)
         | (None, q, e) \<Rightarrow> (None, q, e)))"

definition scanValueBody ::
  "(string \<Rightarrow> nat \<Rightarrow> jvalue option \<times> nat \<times> perror option) \<Rightarrow> nat \<Rightarrow> string \<Rightarrow> nat
     \<Rightarrow> jvalue option \<times> nat \<times> perror option" where
  "scanValueBody sv n json pos =
     (let p = refSkipWhitespace json pos
      in if charAt json p (CHR ''['') then
           (let p1 = refSkipWhitespace json (p + 1)
            in if charAt json p1 (CHR '']'') then (Some (JArr []), p1 + 1, None)
               else scanItems sv n json p1 [])
         else if charAt json p (CHR ''{'') then
           (let p1 = refSkipWhitespace json (p + 1)
            in if charAt json p1 (CHR ''}'') then (Some (JObj []), p1 + 1, None)
               else scanMembers sv n json p1 [])
         else scanScalar json p)"

fun scanValue :: "nat \<Rightarrow> string \<Rightarrow> nat \<Rightarrow> jvalue option \<times> nat \<times> perror option" where
  "scanValue 0 json pos = scanFail json pos"
| "scanValue (Suc n) json pos = scanValueBody (scanValue n) n json pos"

definition refParseJson :: "string \<Rightarrow> nat \<Rightarrow> jvalue option \<times> nat \<times> perror option" where
  "refParseJson json pos = scanValue (Suc (length json)) json pos"

text \<open>Timestamps of the shape \<^verbatim>\<open>dddd-dd-ddTdd:dd:ddZ\<close>.\<close>

definition refValidTimestamp :: "string \<Rightarrow> bool" where
  "refValidTimestamp s =
     (length s = 20 \<and>
      list_all (\<lambda>i. isDigit (s ! i)) [0, 1, 2, 3, 5, 6, 8, 9, 11, 12, 14, 15, 17, 18] \<and>
      s ! 4 = CHR ''-'' \<and> s ! 7 = CHR ''-'' \<and> s ! 10 = CHR ''T'' \<and>
      s ! 13 = CHR '':'' \<and> s ! 16 = CHR '':'' \<and> s ! 19 = CHR ''Z'')"

fun refHasRef :: "schema \<Rightarrow> bool" where
  "refHasRef (Schema el va di ma pr op ad en ty re nu) =
     (re \<noteq> None \<or>
      (case el of None \<Rightarrow> False | Some sch \<Rightarrow> refHasRef sch) \<or>
      (case va of None \<Rightarrow> False | Some sch \<Rightarrow> refHasRef sch) \<or>
      list_ex (\<lambda>kv. refHasRef (snd kv)) ma \<or>
      (case pr of None \<Rightarrow> False | Some kvs \<Rightarrow> list_ex (\<lambda>kv. refHasRef (snd kv)) kvs) \<or>
      (case op of None \<Rightarrow> False | Some kvs \<Rightarrow> list_ex (\<lambda>kv. refHasRef (snd kv)) kvs))"

fun refIntRange :: "IntType \<Rightarrow> int \<times> int \<times> nat" where
  "refIntRange Int8 = (-128, 127, 3)"
| "refIntRange Uint8 = (0, 255, 3)"
| "refIntRange Int16 = (-32768, 32767, 5)"
| "refIntRange Uint16 = (0, 65535, 5)"
| "refIntRange Int32 = (-2147483648, 2147483647, 10)"
| "refIntRange Uint32 = (0, 4294967295, 10)"

definition refCollaborators :: collaborators where
  "refCollaborators =
     \<lparr>skipWhitespace = refSkipWhitespace, parseJsonString = refParseJsonString,
      parseJsonNumber = refParseJsonNumber, parseJson = refParseJson,
      validTimestamp = refValidTimestamp, hasRef = refHasRef, intRange = refIntRange\<rparr>"

subsection \<open>Schemas and contexts used in the examples\<close>

definition emptySchema :: schema where
  "emptySchema = Schema None None None [] None None False None None None False"

definition typeSchema :: "JTDType \<Rightarrow> schema" where
  "typeSchema t = Schema None None None [] None None False None (Some t) None False"

definition propertiesSchema :: "(string \<times> schema) list \<Rightarrow> bool \<Rightarrow> schema" where
  "propertiesSchema props additional =
     Schema None None None [] (Some props) None additional None None None False"

definition optionalPropertiesSchema :: "(string \<times> schema) list \<Rightarrow> bool \<Rightarrow> schema" where
  "optionalPropertiesSchema props additional =
     Schema None None None [] None (Some props) additional None None None False"

definition valuesSchema :: "schema \<Rightarrow> schema" where
  "valuesSchema sch = Schema None (Some sch) None [] None None False None None None False"

definition refTo :: "string \<Rightarrow> schema" where
  "refTo r = Schema None None None [] None None False None None (Some r) False"

definition mkCxt :: "(string \<times> schema) list \<Rightarrow> schema \<Rightarrow> ParseCxt" where
  "mkCxt defs sch = \<lparr>self = refCollaborators, definitions = defs, schema = sch\<rparr>"

definition enumSchema :: "string list \<Rightarrow> schema" where
  "enumSchema vs = Schema None None None [] None None False (Some vs) None None False"

definition nullableSchema :: "schema \<Rightarrow> schema" where
  "nullableSchema sch =
     Schema (elements sch) (valuesS sch) (discriminator sch) (mapping sch) (properties sch)
       (optionalProperties sch) (additionalProperties sch) (enum sch) (typeS sch) (ref sch) True"

definition discriminatorSchema :: "string \<Rightarrow> (string \<times> schema) list \<Rightarrow> schema" where
  "discriminatorSchema tag branches =
     Schema None None (Some tag) branches None None False None None None False"

text \<open>
  The tagged union of the spec's examples: tag \<^verbatim>\<open>type\<close>, branch \<^verbatim>\<open>a\<close> with the
  property \<^verbatim>\<open>x\<close> of type int32, branch \<^verbatim>\<open>b\<close> with the property \<^verbatim>\<open>y\<close> of type
  string.
\<close>

definition exampleUnion :: schema where
  "exampleUnion =
     discriminatorSchema ''type''
       [(''a'', propertiesSchema [(''x'', typeSchema (TInt Int32))] False),
        (''b'', propertiesSchema [(''y'', typeSchema TString)] False)]"

section \<open>Code generation\<close>

text \<open>
  What the generators do while they run, apart from emitting code: the walk over the
  schema, the exception of \<^verbatim>\<open>parseRef\<close>, and \<^verbatim>\<open>compileParser\<close> with its
  registry \<^verbatim>\<open>this._compilations\<close> of the environments being compiled. An
  environment is identified by its schema; \<^verbatim>\<open>gen.scopeName("parse")\<close> is the name
  \<^verbatim>\<open>parse\<close>, its unique suffix left out.
\<close>

datatype compileError = MissingRefError string | TypeError | OutOfFuel

type_synonym parseFunction =
  "nat \<Rightarrow> string \<Rightarrow> nat option \<Rightarrow> bool \<Rightarrow> perror option \<Rightarrow> presult \<times> perror option"

record SchemaEnv =
  envSchema :: schema
  parseFn :: "parseFunction option"
  parseName :: "string option"

record Ajv =
  compilations :: "schema list"

text \<open>
  A generator at generation time: it returns normally or throws (\<open>Some\<close>), and leaves
  the instance in a new state either way.
\<close>

type_synonym generation = "Ajv \<Rightarrow> compileError option \<times> Ajv"

fun genEach :: "('a \<Rightarrow> generation) \<Rightarrow> 'a list \<Rightarrow> generation" where
  "genEach g [] ajv = (None, ajv)"
| "genEach g (x # xs) ajv =
     (case g x ajv of (None, ajv') \<Rightarrow> genEach g xs ajv' | (Some e, ajv') \<Rightarrow> (Some e, ajv'))"

text \<open>
  Modelled from the spec: \<^verbatim>\<open>getCompilingSchema\<close> is imported and not part of the
  source at hand; by the spec a cyclic reference to an in-flight environment reuses
  that environment instead of compiling again. The environment found has a name and
  no parse function yet.
\<close>

definition getCompilingSchema :: "Ajv \<Rightarrow> SchemaEnv \<Rightarrow> SchemaEnv option" where
  "getCompilingSchema ajv sch =
     (if envSchema sch \<in> set (compilations ajv)
      then Some \<lparr>envSchema = envSchema sch, parseFn = None, parseName = Some ''parse''\<rparr>
      else None)"

text \<open>
  \<^verbatim>\<open>parseSchemaProperties\<close> while generating: \<^verbatim>\<open>parseDefinedProperty\<close> runs
  \<^verbatim>\<open>parseCode\<close> (here \<open>gc\<close>) for the required and then for the optional properties.
  After that, when \<^verbatim>\<open>properties\<close> is present, the generator builds the conjunction
  \<^verbatim>\<open>and(...Object.keys(properties).map(...))\<close>; \<^verbatim>\<open>and\<close> reduces its arguments
  without an initial value, which throws a \<^verbatim>\<open>TypeError\<close> when there is none.
\<close>

definition genSchemaProperties :: "(ParseCxt \<Rightarrow> generation) \<Rightarrow> ParseCxt \<Rightarrow> generation" where
  "genSchemaProperties gc cxt ajv =
     (case genEach (\<lambda>kv. gc (cxt\<lparr>schema := snd kv\<rparr>))
             (optObj (properties (schema cxt)) @ optObj (optionalProperties (schema cxt))) ajv of
        (Some e, ajv') \<Rightarrow> (Some e, ajv')
      | (None, ajv') \<Rightarrow>
          if properties (schema cxt) = Some [] then (Some TypeError, ajv') else (None, ajv'))"

definition genDiscriminator :: "(ParseCxt \<Rightarrow> generation) \<Rightarrow> ParseCxt \<Rightarrow> generation" where
  "genDiscriminator gc cxt =
     genEach (\<lambda>kv. genSchemaProperties gc (cxt\<lparr>schema := snd kv\<rparr>)) (mapping (schema cxt))"

text \<open>
  \<^verbatim>\<open>parseRef\<close> while generating; \<open>cp\<close> is \<^verbatim>\<open>compileParser\<close> called on
  \<^verbatim>\<open>new SchemaEnv({schema: refSchema, root})\<close>.
\<close>

definition genRef ::
  "(ParseCxt \<Rightarrow> generation) \<Rightarrow> (Ajv \<Rightarrow> SchemaEnv \<Rightarrow> compileError option \<times> SchemaEnv \<times> Ajv)
     \<Rightarrow> ParseCxt \<Rightarrow> generation" where
  "genRef gc cp cxt ajv =
     (case ref (schema cxt) of
        None \<Rightarrow> (Some TypeError, ajv)
      | Some r \<Rightarrow>
          (case lookupDefinition (definitions cxt) r of
             None \<Rightarrow> (Some (MissingRefError r), ajv)
           | Some refSchema \<Rightarrow>
               if \<not> hasRef (self cxt) refSchema then gc (cxt\<lparr>schema := refSchema\<rparr>) ajv
               else (case cp ajv \<lparr>envSchema = refSchema, parseFn = None, parseName = None\<rparr> of
                       (e, sch, ajv') \<Rightarrow> (e, ajv'))))"

text \<open>
  \<^verbatim>\<open>compileParser\<close> and, as \<open>genCode\<close>, \<^verbatim>\<open>parseCode\<close> while generating (both
  branches of \<^verbatim>\<open>parseNullable\<close> run the generator of the form once). The result of
  \<^verbatim>\<open>compileParser\<close> is the exception thrown, if any, the environment as the call
  leaves it, and the instance. The fuel bounds the nesting of the generators.
\<close>

fun compileParser ::
    "nat \<Rightarrow> collaborators \<Rightarrow> (string \<times> schema) list \<Rightarrow> Ajv \<Rightarrow> SchemaEnv
       \<Rightarrow> compileError option \<times> SchemaEnv \<times> Ajv"
  and genCode :: "nat \<Rightarrow> ParseCxt \<Rightarrow> generation"
where
  "compileParser n this defs ajv sch =
     (case getCompilingSchema ajv sch of
        Some sch' \<Rightarrow> (None, sch', ajv)
      | None \<Rightarrow>
          (let cxt = \<lparr>self = this, definitions = defs, schema = envSchema sch\<rparr>;
               ajv1 = ajv\<lparr>compilations := envSchema sch # compilations ajv\<rparr>;
               sch1 = sch\<lparr>parseName := Some ''parse''\<rparr>
           in case genCode n cxt ajv1 of
                (None, ajv2) \<Rightarrow>
                  (None, sch1\<lparr>parseFn := Some (\<lambda>fuel. parse fuel cxt)\<rparr>,
                   ajv2\<lparr>compilations := removeAll (envSchema sch) (compilations ajv2)\<rparr>)
              | (Some e, ajv2) \<Rightarrow>
                  (Some e, sch1\<lparr>parseFn := None, parseName := None\<rparr>,
                   ajv2\<lparr>compilations := removeAll (envSchema sch) (compilations ajv2)\<rparr>)))"
| "genCode 0 cxt ajv = (Some OutOfFuel, ajv)"
| "genCode (Suc n) cxt ajv =
     (case selectForm (schema cxt) of
        None \<Rightarrow> (None, ajv)
      | Some FElements \<Rightarrow>
          (case elements (schema cxt) of
             None \<Rightarrow> (Some TypeError, ajv)
           | Some sch \<Rightarrow> genCode n (cxt\<lparr>schema := sch\<rparr>) ajv)
      | Some FValues \<Rightarrow>
          (case valuesS (schema cxt) of
             None \<Rightarrow> (Some TypeError, ajv)
           | Some sch \<Rightarrow> genCode n (cxt\<lparr>schema := sch\<rparr>) ajv)
      | Some FDiscriminator \<Rightarrow> genDiscriminator (genCode n) cxt ajv
      | Some FProperties \<Rightarrow> genSchemaProperties (genCode n) cxt ajv
      | Some FOptionalProperties \<Rightarrow> genSchemaProperties (genCode n) cxt ajv
      | Some FEnum \<Rightarrow> (None, ajv)
      | Some FType \<Rightarrow> (None, ajv)
      | Some FRef \<Rightarrow> genRef (genCode n) (compileParser n (self cxt) (definitions cxt)) cxt ajv)"

section \<open>Conditions on the collaborators and on the definitions\<close>

text \<open>The scanner never moves the cursor backwards.\<close>

definition scannerAdvances :: "collaborators \<Rightarrow> bool" where
  "scannerAdvances c =
     (\<forall>json p. p \<le> skipWhitespace c json p \<and>
               p \<le> fst (snd (parseJsonString c json p)) \<and>
               (\<forall>m. p \<le> fst (snd (parseJsonNumber c json p m))) \<and>
               p \<le> fst (snd (parseJson c json p)))"

text \<open>A scanner function that returns \<^verbatim>\<open>undefined\<close> has set its error property.\<close>

definition failureReported :: "'a option \<times> nat \<times> perror option \<Rightarrow> bool" where
  "failureReported r = (fst r = None \<longrightarrow> snd (snd r) \<noteq> None)"

definition scannerReports :: "collaborators \<Rightarrow> bool" where
  "scannerReports c =
     (\<forall>json p. failureReported (parseJsonString c json p) \<and>
               (\<forall>m. failureReported (parseJsonNumber c json p m)) \<and>
               failureReported (parseJson c json p))"

text \<open>
  Following at most \<open>k\<close> references in a row from a schema leads to a schema whose
  form is not \<^verbatim>\<open>ref\<close> (or to a name without a definition).
\<close>

fun refChain :: "(string \<times> schema) list \<Rightarrow> nat \<Rightarrow> schema \<Rightarrow> bool" where
  "refChain defs 0 sch = (selectForm sch \<noteq> Some FRef)"
| "refChain defs (Suc k) sch =
     (selectForm sch \<noteq> Some FRef \<or>
      (case ref sch of
         None \<Rightarrow> True
       | Some r \<Rightarrow>
           (case lookupDefinition defs r of None \<Rightarrow> True | Some target \<Rightarrow> refChain defs k target)))"

definition guardedRefs :: "(string \<times> schema) list \<Rightarrow> bool" where
  "guardedRefs defs = list_all (\<lambda>kv. refChain defs (length defs) (snd kv)) defs"

section \<open>Further examples\<close>

text \<open>\<^verbatim>\<open>new SchemaEnv({schema, root})\<close>: no parse function and no name yet.\<close>

definition newSchemaEnv :: "schema \<Rightarrow> SchemaEnv" where
  "newSchemaEnv sch = \<lparr>envSchema = sch, parseFn = None, parseName = None\<rparr>"

text \<open>
  A tagged union whose tag field has the empty name, and one whose tag is \<^verbatim>\<open>t\<close>;
  the branch \<^verbatim>\<open>a\<close> of both is \<^verbatim>\<open>{optionalProperties: {x: {type: "int8"}}}\<close>.
\<close>

definition emptyTagUnion :: schema where
  "emptyTagUnion =
     discriminatorSchema [] [(''a'', optionalPropertiesSchema [(''x'', typeSchema (TInt Int8))] False)]"

definition tagUnion :: schema where
  "tagUnion =
     discriminatorSchema ''t'' [(''a'', optionalPropertiesSchema [(''x'', typeSchema (TInt Int8))] False)]"

text \<open>
  The list of the spec:
  \<^verbatim>\<open>{properties: {value: {type: "int32"}, next: {ref: "list", nullable: true}}}\<close>.
\<close>

definition listSchema :: schema where
  "listSchema =
     propertiesSchema [(''value'', typeSchema (TInt Int32)), (''next'', nullableSchema (refTo ''list''))] False"

section \<open>Notions used in the proofs\<close>

text \<open>A failure has stored an error record in the slot.\<close>

definition reportsError :: "'a outcome \<Rightarrow> bool" where
  "reportsError m = (case m of Failed e q \<Rightarrow> e \<noteq> None | _ \<Rightarrow> True)"

text \<open>The cursor an outcome carries is not before \<open>p\<close>.\<close>

definition notBefore :: "nat \<Rightarrow> 'a outcome \<Rightarrow> bool" where
  "notBefore p m = (case m of Done v q \<Rightarrow> p \<le> q | Failed e q \<Rightarrow> p \<le> q | _ \<Rightarrow> True)"

text \<open>
  A computation indexed by its fuel settles: from some fuel on it gives one and the
  same outcome, and that outcome is not \<open>Timeout\<close>.
\<close>

definition settles :: "(nat \<Rightarrow> 'a outcome) \<Rightarrow> bool" where
  "settles F = (\<exists>N r. r \<noteq> Timeout \<and> (\<forall>n\<ge>N. F n = r))"

text \<open>
  What the proof of termination assumes of the parsers \<open>PC n\<close> of the sub-schemas,
  \<open>n\<close> the fuel: the scanner never moves backwards, from the position \<open>q0\<close> on
  every one of them settles, and none moves the cursor backwards.
\<close>

definition subSettles :: "(nat \<Rightarrow> codeParser) \<Rightarrow> ParseCxt \<Rightarrow> string \<Rightarrow> nat \<Rightarrow> bool" where
  "subSettles PC cxt json q0 =
     (scannerAdvances (self cxt) \<and>
      (\<forall>s q. q0 \<le> q \<longrightarrow> settles (\<lambda>n. PC n (cxt\<lparr>schema := s\<rparr>) json q)) \<and>
      (\<forall>n s q. notBefore q (PC n (cxt\<lparr>schema := s\<rparr>) json q)))"

section \<open>Verified properties\<close>

subsection \<open>Basic facts\<close>

lemma andThen_simps [simp]:
  "andThen (Done a p) f = f a p"
  "andThen (Failed e p) f = Failed e p"
  "andThen (Thrown x) f = Thrown x"
  "andThen ProtoKey f = ProtoKey"
  "andThen Timeout f = Timeout"
  by (simp_all add: andThen_def)

lemma jsonSyntaxError_Failed:
  "jsonSyntaxError json p =
     Failed (Some \<lparr>message = ''unexpected token '' @ (if p < length json then [json ! p] else ''undefined''),
                    position = p\<rparr>) p"
  by (simp add: jsonSyntaxError_def parsingErrorMsg_def parsingError_def jsonSlice_def)

lemma jsonSlice_eq_take:
  "tok \<noteq> [] \<Longrightarrow> (jsonSlice json p (length tok) = Some tok) = (take (length tok) (drop p json) = tok)"
proof (cases "length tok = 1")
  case True
  then obtain c where tok: "tok = [c]"
    by (cases tok) auto
  show ?thesis
  proof (cases "p < length json")
    case True
    then have "drop p json = json ! p # drop (Suc p) json"
      by (simp add: Cons_nth_drop_Suc)
    then show ?thesis using True tok by (simp add: jsonSlice_def)
  next
    case False
    then show ?thesis using tok by (simp add: jsonSlice_def)
  qed
next
  case False
  then show ?thesis by (simp add: jsonSlice_def)
qed

lemma parseToken_char:
  "parseToken cxt json [c] jsonPos =
     (let p = skipWhitespace (self cxt) json jsonPos
      in if p < length json \<and> json ! p = c then Done () (Suc p) else jsonSyntaxError json p)"
  by (auto simp add: parseToken_def tryParseToken_def whitespace_def jsonSlice_def Let_def)

subsection \<open>Form selection\<close>

lemma selectForm_chain:
  "selectForm sch =
     (if elements sch \<noteq> None then Some FElements
      else if valuesS sch \<noteq> None then Some FValues
      else if discriminator sch \<noteq> None then Some FDiscriminator
      else if properties sch \<noteq> None then Some FProperties
      else if optionalProperties sch \<noteq> None then Some FOptionalProperties
      else if enum sch \<noteq> None then Some FEnum
      else if typeS sch \<noteq> None then Some FType
      else if ref sch \<noteq> None then Some FRef
      else None)"
  by (simp add: selectForm_def jtdForms_def)

text \<open>
  C3. For every schema node one generator drives the emitted code: the generator of
  the first key, in the order elements, values, discriminator, properties,
  optionalProperties, enum, type, ref, that the schema has, whatever later keys it
  also has; a schema with none of these keys gets the generic JSON parse
  \<^verbatim>\<open>parseEmpty\<close>, which accepts any value.
\<close>

theorem parseCode_form_priority:
  "parseCode (Suc n) cxt json jsonPos =
     parseNullable cxt json
       (if elements (schema cxt) \<noteq> None then parseElements (parseCode n) n cxt json
        else if valuesS (schema cxt) \<noteq> None then parseValues (parseCode n) n cxt json
        else if discriminator (schema cxt) \<noteq> None then parseDiscriminator (parseCode n) n cxt json
        else if properties (schema cxt) \<noteq> None then parseProperties (parseCode n) n cxt json
        else if optionalProperties (schema cxt) \<noteq> None then parseProperties (parseCode n) n cxt json
        else if enum (schema cxt) \<noteq> None then parseEnum cxt json
        else if typeS (schema cxt) \<noteq> None then parseType cxt json
        else if ref (schema cxt) \<noteq> None then parseRef (parseCode n) cxt json
        else parseEmpty cxt json)
       jsonPos"
  by (simp add: selectForm_chain)

text \<open>
  A schema with the keys \<^verbatim>\<open>enum\<close>, \<^verbatim>\<open>type\<close> and \<^verbatim>\<open>ref\<close> is parsed as an
  enum: the text \<^verbatim>\<open>"a"\<close> is accepted although it is no number and the reference
  has no definition; the schema without keys accepts any value.
\<close>

theorem parseCode_form_priority_witness:
  "parseCode (Suc 1)
     (mkCxt [] (Schema None None None [] None None False (Some [''a'']) (Some (TInt Int8)) (Some ''x'') False))
     ''\"a\"'' 0 = Done (JStr ''a'') 3 \<and>
   parseCode (Suc 1) (mkCxt [] emptySchema) ''[true]'' 0 = Done (JArr [JBool True]) 6"
proof -
  have "parseCode (Suc 1)
     (mkCxt [] (Schema None None None [] None None False (Some [''a'']) (Some (TInt Int8)) (Some ''x'') False))
     ''\"a\"'' 0 = Done (JStr ''a'') 3"
    unfolding parseCode_form_priority by code_simp
  moreover have "parseCode (Suc 1) (mkCxt [] emptySchema) ''[true]'' 0 = Done (JArr [JBool True]) 6"
    unfolding parseCode_form_priority by code_simp
  ultimately show ?thesis by simp
qed

subsection \<open>Nullable\<close>

text \<open>
  C6. For a schema with \<^verbatim>\<open>nullable\<close> set the emitted code skips whitespace and
  probes the literal \<^verbatim>\<open>null\<close>: when the next four characters are \<^verbatim>\<open>null\<close> the
  data is null, the cursor moves past them and the generator of the form does not
  run; otherwise the generator of the form runs at the position reached by skipping
  the whitespace, the probe having consumed nothing.
\<close>

theorem parseNullable_probe:
  assumes "nullable (schema cxt)"
  shows "parseCode (Suc n) cxt json jsonPos =
     (let p = skipWhitespace (self cxt) json jsonPos
      in if take 4 (drop p json) = ''null'' then Done JNull (p + 4)
         else (case selectForm (schema cxt) of
                 Some form \<Rightarrow> genParse form (parseCode n) n cxt json p
               | None \<Rightarrow> parseEmpty cxt json p))"
proof -
  have len: "length ''null'' = 4"
    by simp
  show ?thesis
    unfolding parseCode.simps parseNullable_def tryParseToken_def whitespace_def Let_def len
      jsonSlice_def
    using assms by (simp split: option.split)
qed

theorem parseNullable_probe_witness:
  "nullable (schema (mkCxt [] (nullableSchema (typeSchema TString)))) \<and>
   parseCode (Suc 1) (mkCxt [] (nullableSchema (typeSchema TString))) '' null'' 0 = Done JNull 5 \<and>
   parseCode (Suc 1) (mkCxt [] (nullableSchema (typeSchema TString))) '' \"x\"'' 0 = Done (JStr ''x'') 4"
proof -
  have h: "nullable (schema (mkCxt [] (nullableSchema (typeSchema TString))))"
    by code_simp
  have "parseCode (Suc 1) (mkCxt [] (nullableSchema (typeSchema TString))) '' null'' 0 = Done JNull 5"
    unfolding parseNullable_probe [OF h] by code_simp
  moreover have
    "parseCode (Suc 1) (mkCxt [] (nullableSchema (typeSchema TString))) '' \"x\"'' 0 = Done (JStr ''x'') 4"
    unfolding parseNullable_probe [OF h] by code_simp
  ultimately show ?thesis using h by simp
qed

subsection \<open>Enumerations\<close>

lemma valueStr_eq: "tl (JSON_stringify v) = concat (map quoteChar v) @ [dquote]"
  by (simp add: JSON_stringify_def)

lemma valueStr_nonempty: "tl (JSON_stringify v) \<noteq> []"
  by (simp add: valueStr_eq)

lemma enumChain_find:
  "enumChain json enumSch p =
     (case find (\<lambda>v. take (length (tl (JSON_stringify v))) (drop p json) = tl (JSON_stringify v)) enumSch of
        Some v \<Rightarrow> Done (JStr v) (p + length (tl (JSON_stringify v)))
      | None \<Rightarrow> jsonSyntaxError json p)"
proof (induction enumSch)
  case Nil
  show ?case by simp
next
  case (Cons v enumSch)
  show ?case
    using Cons.IH jsonSlice_eq_take [OF valueStr_nonempty, of json p v]
    by (simp add: Let_def)
qed

text \<open>
  C7. For an enum schema the emitted code expects an opening double quote after
  whitespace, then compares, member by member in the order of the declaration, the
  next characters of the text, as many as the member's JSON encoding without its
  opening quote has, with that encoding; the first member that compares equal is
  the value, and the cursor advances by the compared length; when no member
  compares equal (or the quote is missing) the invocation fails with a syntax error.
\<close>

theorem parseEnum_first_match:
  assumes "enum (schema cxt) = Some enumSch"
  shows "parseEnum cxt json jsonPos =
     (let p = skipWhitespace (self cxt) json jsonPos
      in if \<not> (p < length json \<and> json ! p = dquote) then jsonSyntaxError json p
         else (case find (\<lambda>v. take (length (tl (JSON_stringify v))) (drop (Suc p) json)
                                = tl (JSON_stringify v)) enumSch of
                 Some v \<Rightarrow> Done (JStr v) (Suc p + length (tl (JSON_stringify v)))
               | None \<Rightarrow> jsonSyntaxError json (Suc p)))"
  using assms
  by (simp add: parseEnum_def parseToken_char enumChain_find jsonSyntaxError_Failed Let_def)

theorem parseEnum_first_match_witness:
  "enum (schema (mkCxt [] (enumSchema [''ab'', ''a'']))) = Some [''ab'', ''a''] \<and>
   parseEnum (mkCxt [] (enumSchema [''ab'', ''a''])) '' \"a\" '' 0 = Done (JStr ''a'') 4 \<and>
   parseEnum (mkCxt [] (enumSchema [''ab'', ''a''])) '' \"b\" '' 0 =
     Failed (Some \<lparr>message = ''unexpected token b'', position = 2\<rparr>) 2"
proof -
  have h: "enum (schema (mkCxt [] (enumSchema [''ab'', ''a'']))) = Some [''ab'', ''a'']"
    by code_simp
  have "parseEnum (mkCxt [] (enumSchema [''ab'', ''a''])) '' \"a\" '' 0 = Done (JStr ''a'') 4"
    unfolding parseEnum_first_match [OF h] by code_simp
  moreover have "parseEnum (mkCxt [] (enumSchema [''ab'', ''a''])) '' \"b\" '' 0 =
     Failed (Some \<lparr>message = ''unexpected token b'', position = 2\<rparr>) 2"
    unfolding parseEnum_first_match [OF h] by code_simp
  ultimately show ?thesis using h by simp
qed

subsection \<open>Duplicate keys\<close>

lemma parsingErrorMsg_Failed:
  "parsingErrorMsg msg p = Failed (Some \<lparr>message = msg, position = p\<rparr>) p"
  by (simp add: parsingErrorMsg_def parsingError_def)

lemma parse_Thrown:
  "parseCode n cxt json (case jsonPos of None \<Rightarrow> 0 | Some q \<Rightarrow> q) = Thrown x \<Longrightarrow>
   parse n cxt json jsonPos jsonPart e0 = (RThrown x, None)"
  by (simp add: parse_def parserFunction_def returnFrom_def)

text \<open>
  Duplicate keys. In a values schema (\<^verbatim>\<open>parseKeyValue\<close>) and in a properties or
  optionalProperties schema (the block of \<^verbatim>\<open>parseSchemaProperties\<close>), a key that is
  already an own property of the object under construction makes the emitted code
  throw the exception \<^verbatim>\<open>JSON: duplicate property <key>\<close>: no error record is
  stored, and an invocation in which the code throws returns nothing and leaves the
  error slot \<^verbatim>\<open>undefined\<close>. On the second pass of a discriminator whose tag name
  is not empty, a key equal to the tag is exempt: the check is skipped and the key
  goes on to the property chain.
\<close>

theorem duplicate_property_throws:
  assumes "parseString cxt json jsonPos = Done key p" and "isOwnProperty data key"
  shows "parseKeyValue pc cxt json sch data jsonPos = Thrown (''JSON: duplicate property '' @ key) \<and>
     (\<not> (truthy disc \<and> Some key = disc) \<longrightarrow>
        propertiesBlock pc cxt json disc data jsonPos = Thrown (''JSON: duplicate property '' @ key)) \<and>
     (truthy disc \<and> Some key = disc \<longrightarrow>
        propertiesBlock pc cxt json disc data jsonPos =
          andThen (parseToken cxt json '':'' p) (\<lambda>_ p2. propertyChain pc cxt json disc key data p2)) \<and>
     (\<forall>n cxt' json' jp part e0.
        parseCode n cxt' json' (case jp of None \<Rightarrow> 0 | Some q \<Rightarrow> q) = Thrown (''JSON: duplicate property '' @ key) \<longrightarrow>
        parse n cxt' json' jp part e0 = (RThrown (''JSON: duplicate property '' @ key), None))"
  using assms
  by (auto simp add: parseKeyValue_def propertiesBlock_def checkDuplicateProperty_def parse_Thrown)

text \<open>
  The text \<^verbatim>\<open>{"a":1,"a":2}\<close> against a values schema: the second key is read at
  position 7 while the object holds \<^verbatim>\<open>a\<close>; the invocation throws.
\<close>

theorem duplicate_property_throws_witness:
  "parseString (mkCxt [] (valuesSchema emptySchema)) ''{\"a\":1,\"a\":2}'' 7 = Done ''a'' 10 \<and>
   isOwnProperty [(''a'', JNum 1)] ''a'' \<and>
   parseKeyValue (parseCode 1) (mkCxt [] (valuesSchema emptySchema)) ''{\"a\":1,\"a\":2}'' emptySchema
     [(''a'', JNum 1)] 7 = Thrown ''JSON: duplicate property a'' \<and>
   parse 3 (mkCxt [] (valuesSchema emptySchema)) ''{\"a\":1,\"a\":2}'' None False None
     = (RThrown ''JSON: duplicate property a'', None)"
proof -
  have h1: "parseString (mkCxt [] (valuesSchema emptySchema)) ''{\"a\":1,\"a\":2}'' 7 = Done ''a'' 10"
    by code_simp
  have h2: "isOwnProperty [(''a'', JNum 1)] ''a''"
    by code_simp
  have h3: "parse 3 (mkCxt [] (valuesSchema emptySchema)) ''{\"a\":1,\"a\":2}'' None False None
     = (RThrown ''JSON: duplicate property a'', None)"
    by code_simp
  from duplicate_property_throws [OF h1 h2, of "parseCode 1" emptySchema None] h1 h2 h3
  show ?thesis by simp
qed

text \<open>
  C5. A key that is already an own property of the object under construction is a
  thrown exception in values, properties and optionalProperties schemas, and on the
  second pass of a discriminator the key equal to the tag is meant to be exempt.
  The code misses the exemption for a tag field with the empty name: the test
  \<^verbatim>\<open>if (discriminator)\<close> of \<^verbatim>\<open>parseSchemaProperties\<close> takes the empty string for
  an absent argument, so the tag key, which the first pass has stored in the
  object, is checked like any other key and throws. The schema
  \<^verbatim>\<open>{discriminator: "", mapping: {a: {optionalProperties: {x: {type: "int8"}}}}}\<close>
  compiles, and its routine throws on \<^verbatim>\<open>{"":"a"}\<close>; with the tag name \<^verbatim>\<open>t\<close> the
  same block accepts the tag key, and the routine returns the object.
\<close>

theorem duplicate_check_empty_tag:
  "propertiesBlock (parseCode 1)
     (mkCxt [] (optionalPropertiesSchema [(''x'', typeSchema (TInt Int8))] False)) ''{\"\":\"a\"}''
     (Some []) [([], JStr ''a'')] 1 = Thrown ''JSON: duplicate property '' \<and>
   propertiesBlock (parseCode 1)
     (mkCxt [] (optionalPropertiesSchema [(''x'', typeSchema (TInt Int8))] False)) ''{\"t\":\"a\"}''
     (Some ''t'') [(''t'', JStr ''a'')] 1 = Done [(''t'', JStr ''a'')] 8 \<and>
   fst (compileParser 3 refCollaborators [] \<lparr>compilations = []\<rparr> (newSchemaEnv emptyTagUnion)) = None \<and>
   parse 3 (mkCxt [] emptyTagUnion) ''{\"\":\"a\"}'' None False None
     = (RThrown ''JSON: duplicate property '', None) \<and>
   parse 3 (mkCxt [] tagUnion) ''{\"t\":\"a\"}'' None False None
     = (RValue (JObj [(''t'', JStr ''a'')]), None)"
  by code_simp

subsection \<open>Unknown and missing properties\<close>

lemma parseDefinedProperty_skip:
  "key \<notin> set (map fst schemas) \<Longrightarrow>
   parseDefinedProperty pc cxt json key schemas data rest p = rest p"
  by (induction schemas) auto

text \<open>
  C4, as stated, fails: with \<^verbatim>\<open>additionalProperties: true\<close> the value of an
  unknown key is not discarded, it is stored in the result. The schema
  \<^verbatim>\<open>{properties: {a: {type: "string"}}, additionalProperties: true}\<close> parses
  \<^verbatim>\<open>{"a":"x","b":1}\<close> to an object that has the property \<^verbatim>\<open>b\<close>.
\<close>

theorem additional_property_kept:
  "parse 3 (mkCxt [] (propertiesSchema [(''a'', typeSchema TString)] True))
     ''{\"a\":\"x\",\"b\":1}'' None False None
   = (RValue (JObj [(''a'', JStr ''x''), (''b'', JNum 1)]), None)"
  by code_simp

text \<open>
  C4, amended. In a properties or optionalProperties schema a key that matches
  neither a required nor an optional property name, and is not the tag of a
  discriminator being re-parsed, fails the invocation with the message
  \<^verbatim>\<open>property <key> not allowed\<close> when \<^verbatim>\<open>additionalProperties\<close> is false or absent;
  when it is true the value is parsed generically and, for every key other than
  \<^verbatim>\<open>__proto__\<close>, stored under that key in the object. After the closing brace, the
  invocation fails with \<^verbatim>\<open>missing required properties\<close> if a name listed under
  \<^verbatim>\<open>properties\<close> is not an own property of the parsed object (\<^verbatim>\<open>properties\<close>
  lists at least one name: for \<^verbatim>\<open>properties: {}\<close> no routine is built).
\<close>

theorem unknown_property_and_required:
  "(key \<notin> set (map fst (optObj (properties (schema cxt)))) \<and>
    key \<notin> set (map fst (optObj (optionalProperties (schema cxt)))) \<and>
    \<not> (truthy disc \<and> Some key = disc) \<longrightarrow>
      (\<not> additionalProperties (schema cxt) \<longrightarrow>
         propertyChain pc cxt json disc key data p =
           Failed (Some \<lparr>message = ''property '' @ key @ '' not allowed'', position = p\<rparr>) p) \<and>
      (additionalProperties (schema cxt) \<and> key \<noteq> ''__proto__'' \<longrightarrow>
         propertyChain pc cxt json disc key data p =
           andThen (parseEmpty cxt json p) (\<lambda>v p'. Done (objSet data key v) p'))) \<and>
   (parseItems n cxt json ''}'' (\<lambda>d q. noBreak (propertiesBlock pc cxt json disc d q)) data jsonPos = Done d p' \<and>
    properties (schema cxt) = Some props \<and> props \<noteq> [] \<longrightarrow>
      parseSchemaProperties pc n cxt json disc data jsonPos =
        (if \<exists>prop \<in> set (map fst props). \<not> isOwnProperty d prop
         then Failed (Some \<lparr>message = ''missing required properties'', position = p'\<rparr>) p'
         else Done d p'))"
proof -
  have a: "key \<notin> set (map fst (optObj (properties (schema cxt)))) \<and>
    key \<notin> set (map fst (optObj (optionalProperties (schema cxt)))) \<and>
    \<not> (truthy disc \<and> Some key = disc) \<longrightarrow>
      (\<not> additionalProperties (schema cxt) \<longrightarrow>
         propertyChain pc cxt json disc key data p =
           Failed (Some \<lparr>message = ''property '' @ key @ '' not allowed'', position = p\<rparr>) p) \<and>
      (additionalProperties (schema cxt) \<and> key \<noteq> ''__proto__'' \<longrightarrow>
         propertyChain pc cxt json disc key data p =
           andThen (parseEmpty cxt json p) (\<lambda>v p'. Done (objSet data key v) p'))"
    by (simp add: propertyChain_def parseDefinedProperty_skip parsingErrorMsg_Failed)
  have b: "parseItems n cxt json ''}'' (\<lambda>d q. noBreak (propertiesBlock pc cxt json disc d q)) data jsonPos = Done d p' \<and>
    properties (schema cxt) = Some props \<and> props \<noteq> [] \<longrightarrow>
      parseSchemaProperties pc n cxt json disc data jsonPos =
        (if \<exists>prop \<in> set (map fst props). \<not> isOwnProperty d prop
         then Failed (Some \<lparr>message = ''missing required properties'', position = p'\<rparr>) p'
         else Done d p')"
    by (auto simp add: parseSchemaProperties_def parsingErrorMsg_Failed list_all_iff)
  from a b show ?thesis by (rule conjI)
qed

text \<open>
  The examples of the spec, schema \<^verbatim>\<open>{properties: {a: {type: "string"}}}\<close>: the
  key \<^verbatim>\<open>b\<close> of \<^verbatim>\<open>{"a":"x","b":1}\<close> is not allowed, and \<^verbatim>\<open>{}\<close> misses \<^verbatim>\<open>a\<close>.
\<close>

theorem unknown_property_and_required_witness:
  "propertyChain (parseCode 1) (mkCxt [] (propertiesSchema [(''a'', typeSchema TString)] False))
     ''{\"a\":\"x\",\"b\":1}'' None ''b'' [(''a'', JStr ''x'')] 13
     = Failed (Some \<lparr>message = ''property b not allowed'', position = 13\<rparr>) 13 \<and>
   parseSchemaProperties (parseCode 1) 1 (mkCxt [] (propertiesSchema [(''a'', typeSchema TString)] False))
     ''{}'' None [] 1
     = Failed (Some \<lparr>message = ''missing required properties'', position = 2\<rparr>) 2 \<and>
   parse 3 (mkCxt [] (propertiesSchema [(''a'', typeSchema TString)] False))
     ''{\"a\":\"x\",\"b\":1}'' None False None
     = (RUndefined, Some \<lparr>message = ''property b not allowed'', position = 13\<rparr>) \<and>
   propertyChain (parseCode 1) (mkCxt [] (propertiesSchema [(''a'', typeSchema TString)] True))
     ''{\"a\":\"x\",\"b\":1}'' None ''b'' [(''a'', JStr ''x'')] 13
     = Done [(''a'', JStr ''x''), (''b'', JNum 1)] 14"
proof -
  let ?c = "mkCxt [] (propertiesSchema [(''a'', typeSchema TString)] False)"
  let ?t = "mkCxt [] (propertiesSchema [(''a'', typeSchema TString)] True)"
  have k': "''b'' \<notin> set (map fst (optObj (properties (schema ?t)))) \<and>
           ''b'' \<notin> set (map fst (optObj (optionalProperties (schema ?t)))) \<and>
           \<not> (truthy None \<and> Some ''b'' = None)"
    by code_simp
  have a': "additionalProperties (schema ?t) \<and> ''b'' \<noteq> ''__proto__''"
    by code_simp
  have v': "andThen (parseEmpty ?t ''{\"a\":\"x\",\"b\":1}'' 13)
              (\<lambda>v p'. Done (objSet [(''a'', JStr ''x'')] ''b'' v) p')
            = Done [(''a'', JStr ''x''), (''b'', JNum 1)] 14"
    by code_simp
  from unknown_property_and_required
         [where key = "''b''" and cxt = ?t and disc = None and pc = "parseCode 1"
            and json = "''{\"a\":\"x\",\"b\":1}''" and data = "[(''a'', JStr ''x'')]" and p = 13]
       k' a' v'
  have t: "propertyChain (parseCode 1) ?t ''{\"a\":\"x\",\"b\":1}'' None ''b'' [(''a'', JStr ''x'')] 13
     = Done [(''a'', JStr ''x''), (''b'', JNum 1)] 14"
    by simp
  have k: "''b'' \<notin> set (map fst (optObj (properties (schema ?c)))) \<and>
           ''b'' \<notin> set (map fst (optObj (optionalProperties (schema ?c)))) \<and>
           \<not> (truthy None \<and> Some ''b'' = None)"
    by code_simp
  have a: "\<not> additionalProperties (schema ?c)"
    by code_simp
  have i: "parseItems 1 ?c ''{}'' ''}'' (\<lambda>d q. noBreak (propertiesBlock (parseCode 1) ?c ''{}'' None d q)) [] 1
             = Done [] 2 \<and>
           properties (schema ?c) = Some [(''a'', typeSchema TString)] \<and>
           [(''a'', typeSchema TString)] \<noteq> []"
    by code_simp
  have m: "\<exists>prop \<in> set (map fst [(''a'', typeSchema TString)]). \<not> isOwnProperty [] prop"
    by code_simp
  have e: "parse 3 ?c ''{\"a\":\"x\",\"b\":1}'' None False None
     = (RUndefined, Some \<lparr>message = ''property b not allowed'', position = 13\<rparr>)"
    by code_simp
  from unknown_property_and_required
         [where key = "''b''" and cxt = ?c and disc = None and pc = "parseCode 1"
            and json = "''{\"a\":\"x\",\"b\":1}''" and data = "[(''a'', JStr ''x'')]" and p = 13]
       k a
  have "propertyChain (parseCode 1) ?c ''{\"a\":\"x\",\"b\":1}'' None ''b'' [(''a'', JStr ''x'')] 13
     = Failed (Some \<lparr>message = ''property b not allowed'', position = 13\<rparr>) 13"
    by simp
  moreover from unknown_property_and_required
         [where cxt = ?c and disc = None and pc = "parseCode 1" and n = 1 and json = "''{}''"
            and data = "[]" and jsonPos = 1 and d = "[]" and p' = 2
            and props = "[(''a'', typeSchema TString)]"]
       i m
  have "parseSchemaProperties (parseCode 1) 1 ?c ''{}'' None [] 1
     = Failed (Some \<lparr>message = ''missing required properties'', position = 2\<rparr>) 2"
    by simp
  ultimately show ?thesis using e t by simp
qed

subsection \<open>Entry protocol\<close>

text \<open>
  C2, as stated, fails. In partial mode the position returned for \<^verbatim>\<open>{} trailing\<close>
  is 3, past the blank that follows the closing brace (the brace is at index 1):
  the routine skips trailing whitespace before it returns in either mode. And an
  invocation does not return a pair whatever the outcome: when the generator chain
  throws, as on a duplicate key, nothing is returned.
\<close>

theorem partial_position_after_whitespace:
  "parse 3 (mkCxt [] (valuesSchema emptySchema)) ''{} trailing'' None True None
     = (RPair (Some (JObj [])) 3, None) \<and>
   ''{} trailing'' ! 1 = CHR ''}'' \<and>
   parse 3 (mkCxt [] (valuesSchema emptySchema)) ''{\"a\":1,\"a\":2}'' None True None
     = (RThrown ''JSON: duplicate property a'', None)"
  by code_simp

text \<open>
  C2, amended. The routine runs the generator chain from the start position
  (\<^verbatim>\<open>jsonPos || 0\<close>). When the chain completes, trailing whitespace is skipped; with
  \<^verbatim>\<open>partial = true\<close> the routine returns the pair of the value and the position
  reached after that whitespace; with \<^verbatim>\<open>partial = false\<close> it returns the value
  alone if that position is the length of the text, and otherwise fails with a
  syntax error recorded at that position. When the chain has recorded a failure the
  routine returns \<^verbatim>\<open>[undefined, position]\<close> in partial mode and \<^verbatim>\<open>undefined\<close>
  otherwise. When the chain throws, the exception propagates and nothing is
  returned. So \<^verbatim>\<open>{} trailing\<close> against a schema that accepts the empty object
  gives, in partial mode, the position after the blank that follows the brace, and
  in non-partial mode a syntax error.
\<close>

theorem parse_entry_protocol:
  "(parseCode n cxt json (case jsonPos of None \<Rightarrow> 0 | Some q \<Rightarrow> q) = Done data p \<longrightarrow>
      parse n cxt json jsonPos True e0 = (RPair (Some data) (skipWhitespace (self cxt) json p), None) \<and>
      parse n cxt json jsonPos False e0 =
        (if skipWhitespace (self cxt) json p = length json then (RValue data, None)
         else (RUndefined,
               Some \<lparr>message = ''unexpected token '' @
                        (if skipWhitespace (self cxt) json p < length json
                         then [json ! skipWhitespace (self cxt) json p] else ''undefined''),
                     position = skipWhitespace (self cxt) json p\<rparr>))) \<and>
   (parseCode n cxt json (case jsonPos of None \<Rightarrow> 0 | Some q \<Rightarrow> q) = Failed e p \<longrightarrow>
      parse n cxt json jsonPos True e0 = (RPair None p, e) \<and>
      parse n cxt json jsonPos False e0 = (RUndefined, e)) \<and>
   (parseCode n cxt json (case jsonPos of None \<Rightarrow> 0 | Some q \<Rightarrow> q) = Thrown x \<longrightarrow>
      parse n cxt json jsonPos True e0 = (RThrown x, None) \<and>
      parse n cxt json jsonPos False e0 = (RThrown x, None))"
  by (simp add: parse_def parserFunction_def returnFrom_def whitespace_def jsonSyntaxError_Failed Let_def)

theorem parse_entry_protocol_witness:
  "parseCode 3 (mkCxt [] (valuesSchema emptySchema)) ''{} trailing'' 0 = Done (JObj []) 2 \<and>
   parse 3 (mkCxt [] (valuesSchema emptySchema)) ''{} trailing'' None True None
     = (RPair (Some (JObj [])) 3, None) \<and>
   parse 3 (mkCxt [] (valuesSchema emptySchema)) ''{} trailing'' None False None
     = (RUndefined, Some \<lparr>message = ''unexpected token t'', position = 3\<rparr>) \<and>
   parse 3 (mkCxt [] (valuesSchema emptySchema)) ''{} '' None False None = (RValue (JObj []), None) \<and>
   parseCode 3 (mkCxt [] (valuesSchema emptySchema)) ''{\"a\" 1}'' 0
     = Failed (Some \<lparr>message = ''unexpected token 1'', position = 5\<rparr>) 5 \<and>
   parse 3 (mkCxt [] (valuesSchema emptySchema)) ''{\"a\" 1}'' None True None
     = (RPair None 5, Some \<lparr>message = ''unexpected token 1'', position = 5\<rparr>)"
proof -
  let ?c = "mkCxt [] (valuesSchema emptySchema)"
  have d: "parseCode 3 ?c ''{} trailing'' (case None of None \<Rightarrow> 0 | Some q \<Rightarrow> q) = Done (JObj []) 2"
    by code_simp
  have w: "skipWhitespace (self ?c) ''{} trailing'' 2 = 3" "length ''{} trailing'' = 11"
    "''{} trailing'' ! 3 = CHR ''t''"
    by code_simp+
  have f: "parseCode 3 ?c ''{\"a\" 1}'' (case None of None \<Rightarrow> 0 | Some q \<Rightarrow> q)
     = Failed (Some \<lparr>message = ''unexpected token 1'', position = 5\<rparr>) 5"
    by code_simp
  have v: "parse 3 ?c ''{} '' None False None = (RValue (JObj []), None)"
    by code_simp
  from parse_entry_protocol
         [where n = 3 and cxt = ?c and json = "''{} trailing''" and jsonPos = None
            and data = "JObj []" and p = 2 and ?e0.0 = None] d w
  have "parse 3 ?c ''{} trailing'' None True None = (RPair (Some (JObj [])) 3, None) \<and>
        parse 3 ?c ''{} trailing'' None False None
          = (RUndefined, Some \<lparr>message = ''unexpected token t'', position = 3\<rparr>)"
    by simp
  moreover from parse_entry_protocol
         [where n = 3 and cxt = ?c and json = "''{\"a\" 1}''" and jsonPos = None
            and e = "Some \<lparr>message = ''unexpected token 1'', position = 5\<rparr>" and p = 5
            and ?e0.0 = None] f
  have "parse 3 ?c ''{\"a\" 1}'' None True None
     = (RPair None 5, Some \<lparr>message = ''unexpected token 1'', position = 5\<rparr>)"
    by simp
  ultimately show ?thesis using d f v by simp
qed

subsection \<open>Discriminator\<close>

lemma mappingChain_missing:
  "tag \<notin> set (map fst branches) \<Longrightarrow>
   mappingChain pc n cxt json tag branches data p =
     Failed (Some \<lparr>message = ''discriminator value not in schema'', position = p\<rparr>) p"
  by (induction branches) (auto simp add: parsingErrorMsg_Failed)

lemma mappingChain_found:
  "map_of branches tag = Some branch \<Longrightarrow>
   mappingChain pc n cxt json tag branches data p =
     parseSchemaProperties pc n (cxt\<lparr>schema := branch\<rparr>) json (discriminator (schema cxt)) data p"
  by (induction branches) (auto split: if_splits)

lemma andThen_eq_Done:
  "(andThen m f = Done b p) = (\<exists>a q. m = Done a q \<and> f a q = Done b p)"
  by (cases m) simp_all

text \<open>The state of the first pass after one run of its block, and after the loop.\<close>

lemma discriminatorBlock_state:
  assumes "discriminatorBlock cxt json (None, []) q = Done (brk, t, data) p"
  shows "(\<not> brk \<and> t = None \<and> data = []) \<or>
         (brk \<and> (\<exists>tag key. t = Some tag \<and> discriminator (schema cxt) = Some key \<and>
                    data = (if key = ''__proto__'' then [] else [(key, JStr tag)])))"
proof -
  obtain key q1 where k: "parseString cxt json q = Done key q1"
    using assms by (cases "parseString cxt json q") (simp_all add: discriminatorBlock_def)
  obtain q2 where c: "parseToken cxt json '':'' q1 = Done () q2"
    using assms k by (cases "parseToken cxt json '':'' q1") (simp_all add: discriminatorBlock_def)
  show ?thesis
  proof (cases "Some key = discriminator (schema cxt)")
    case True
    obtain tag p2 where s: "parseString cxt json q2 = Done tag p2"
      using assms k c True
      by (cases "parseString cxt json q2") (simp_all add: discriminatorBlock_def)
    from assms k c True s have "brk" "t = Some tag"
      "data = (if key = ''__proto__'' then [] else [(key, JStr tag)])"
      by (auto simp add: discriminatorBlock_def split: if_splits)
    with True [symmetric] show ?thesis by blast
  next
    case False
    obtain v p2 where s: "parseEmpty cxt json q2 = Done v p2"
      using assms k c False
      by (cases "parseEmpty cxt json q2") (simp_all add: discriminatorBlock_def)
    from assms k c False s have "\<not> brk" "t = None" "data = []"
      by (simp_all add: discriminatorBlock_def)
    then show ?thesis by simp
  qed
qed

lemma firstPass_state:
  "tryParseItems n cxt json ''}'' (discriminatorBlock cxt json) (None, []) q = Done (t, data) p \<Longrightarrow>
   (t = None \<and> data = []) \<or>
   (\<exists>tag key. t = Some tag \<and> discriminator (schema cxt) = Some key \<and>
      data = (if key = ''__proto__'' then [] else [(key, JStr tag)]))"
proof (induction n arbitrary: q)
  case 0
  then show ?case by (simp split: if_splits)
next
  case (Suc n)
  show ?case
  proof (cases "q < length json \<and> jsonSlice json q 1 \<noteq> Some ''}''")
    case False
    with Suc.prems have "t = None" "data = []" by auto
    then show ?thesis by simp
  next
    case True
    with Suc.prems have loop:
      "andThen (discriminatorBlock cxt json (None, []) q)
         (\<lambda>r p. if fst r then Done (snd r) p
                 else tryParseToken cxt json '','' (\<lambda>p'. Done (snd r) p')
                        (\<lambda>p'. tryParseItems n cxt json ''}'' (discriminatorBlock cxt json) (snd r) p') p)
       = Done (t, data) p"
      by simp
    then obtain r q' where
      blk: "discriminatorBlock cxt json (None, []) q = Done r q'" and
      rest: "(if fst r then Done (snd r) q'
              else tryParseToken cxt json '','' (\<lambda>p'. Done (snd r) p')
                     (\<lambda>p'. tryParseItems n cxt json ''}'' (discriminatorBlock cxt json) (snd r) p') q')
             = Done (t, data) p"
      by (auto simp add: andThen_eq_Done)
    obtain brk t' d' where r: "r = (brk, t', d')"
      by (cases r) auto
    from discriminatorBlock_state [of cxt json q brk t' d' q'] blk r
    have st: "(\<not> brk \<and> t' = None \<and> d' = []) \<or>
       (brk \<and> (\<exists>tag key. t' = Some tag \<and> discriminator (schema cxt) = Some key \<and>
                  d' = (if key = ''__proto__'' then [] else [(key, JStr tag)])))"
      by simp
    show ?thesis
    proof (cases brk)
      case True
      with rest r have "t = t'" "data = d'" by simp_all
      with st True show ?thesis by simp
    next
      case False
      with st have e: "t' = None" "d' = []" by auto
      from rest r False e
      have step:
        "tryParseToken cxt json '','' (\<lambda>p'. Done (None, []) p')
           (\<lambda>p'. tryParseItems n cxt json ''}'' (discriminatorBlock cxt json) (None, []) p') q'
         = Done (t, data) p"
        by simp
      show ?thesis
      proof (cases "jsonSlice json (whitespace cxt json q') (length '','') = Some '',''")
        case True
        with step have
          "tryParseItems n cxt json ''}'' (discriminatorBlock cxt json) (None, [])
             (whitespace cxt json q' + length '','') = Done (t, data) p"
          by (simp add: tryParseToken_def Let_def)
        then show ?thesis by (rule Suc.IH)
      next
        case False
        with step have "t = None" "data = []"
          by (simp_all add: tryParseToken_def Let_def)
        then show ?thesis by simp
      qed
    qed
  qed
qed

text \<open>
  The two passes. After the opening brace the emitted code records the position
  \<open>startPos\<close> and scans key/value pairs: for a key equal to the tag field it parses
  the value as a string, records it as the tag (and in the object, unless the field
  is named \<^verbatim>\<open>__proto__\<close>) and breaks out of the loop; the value of any other key is
  parsed generically and discarded.
  Then the position is set back to \<open>startPos\<close>: without a tag the invocation fails
  with \<^verbatim>\<open>discriminator tag not found\<close>; with a tag that is no key of the mapping it
  fails with \<^verbatim>\<open>discriminator value not in schema\<close>; otherwise the object, which
  holds the tag only, is parsed again from \<open>startPos\<close> by the properties generator
  of the matched branch. When the name of the tag field is not empty (and the
  branch does not declare it as a property of its own), that generator parses the
  value of the tag field as a string and leaves the object as it is.
\<close>

theorem parseDiscriminator_two_pass:
  assumes "parseToken cxt json ''{'' jsonPos = Done () startPos"
    and "tryParseItems n cxt json ''}'' (discriminatorBlock cxt json) (None, []) startPos = Done (t, data) p"
  shows "(t = None \<longrightarrow>
            parseDiscriminator pc n cxt json jsonPos =
              Failed (Some \<lparr>message = ''discriminator tag not found'', position = startPos\<rparr>) startPos) \<and>
         (\<forall>tag. t = Some tag \<and> tag \<notin> set (map fst (mapping (schema cxt))) \<longrightarrow>
            parseDiscriminator pc n cxt json jsonPos =
              Failed (Some \<lparr>message = ''discriminator value not in schema'', position = startPos\<rparr>) startPos) \<and>
         (\<forall>tag branch. t = Some tag \<and> map_of (mapping (schema cxt)) tag = Some branch \<longrightarrow>
            (\<exists>key. discriminator (schema cxt) = Some key \<and>
               data = (if key = ''__proto__'' then [] else [(key, JStr tag)])) \<and>
            parseDiscriminator pc n cxt json jsonPos =
              andThen (parseSchemaProperties pc n (cxt\<lparr>schema := branch\<rparr>) json
                         (discriminator (schema cxt)) data startPos)
                (\<lambda>d q. Done (JObj d) q)) \<and>
         (\<forall>st q key q1 q2.
            parseString cxt json q = Done key q1 \<and> parseToken cxt json '':'' q1 = Done () q2 \<longrightarrow>
            discriminatorBlock cxt json st q =
              (if Some key = discriminator (schema cxt)
               then andThen (parseString cxt json q2)
                      (\<lambda>tag q3. Done (True, Some tag,
                                  if key = ''__proto__'' then snd st
                                  else objSet (snd st) key (JStr tag)) q3)
               else andThen (parseEmpty cxt json q2) (\<lambda>v q3. Done (False, st) q3))) \<and>
         (\<forall>m st q st' q'.
            q < length json \<and> json ! q \<noteq> CHR ''}'' \<and>
            discriminatorBlock cxt json st q = Done (True, st') q' \<longrightarrow>
            tryParseItems (Suc m) cxt json ''}'' (discriminatorBlock cxt json) st q = Done st' q') \<and>
         (\<forall>branch key d q.
            discriminator (schema cxt) = Some key \<and> key \<noteq> [] \<and>
            key \<notin> set (map fst (optObj (properties branch))) \<and>
            key \<notin> set (map fst (optObj (optionalProperties branch))) \<longrightarrow>
            propertyChain pc (cxt\<lparr>schema := branch\<rparr>) json (discriminator (schema cxt)) key d q =
              andThen (parseString (cxt\<lparr>schema := branch\<rparr>) json q) (\<lambda>tag q'. Done d q'))"
proof -
  have pd: "parseDiscriminator pc n cxt json jsonPos =
      (case t of
         None \<Rightarrow> Failed (Some \<lparr>message = ''discriminator tag not found'', position = startPos\<rparr>) startPos
       | Some tag \<Rightarrow>
           andThen (mappingChain pc n cxt json tag (mapping (schema cxt)) data startPos)
             (\<lambda>d q. Done (JObj d) q))"
    using assms by (simp add: parseDiscriminator_def parsingErrorMsg_Failed split: option.split)
  have a: "t = None \<longrightarrow>
            parseDiscriminator pc n cxt json jsonPos =
              Failed (Some \<lparr>message = ''discriminator tag not found'', position = startPos\<rparr>) startPos"
    by (simp add: pd)
  have b: "\<forall>tag. t = Some tag \<and> tag \<notin> set (map fst (mapping (schema cxt))) \<longrightarrow>
            parseDiscriminator pc n cxt json jsonPos =
              Failed (Some \<lparr>message = ''discriminator value not in schema'', position = startPos\<rparr>) startPos"
    by (simp add: pd mappingChain_missing)
  have c: "\<forall>tag branch. t = Some tag \<and> map_of (mapping (schema cxt)) tag = Some branch \<longrightarrow>
            (\<exists>key. discriminator (schema cxt) = Some key \<and>
               data = (if key = ''__proto__'' then [] else [(key, JStr tag)])) \<and>
            parseDiscriminator pc n cxt json jsonPos =
              andThen (parseSchemaProperties pc n (cxt\<lparr>schema := branch\<rparr>) json
                         (discriminator (schema cxt)) data startPos)
                (\<lambda>d q. Done (JObj d) q)"
  proof (intro allI impI)
    fix tag branch
    assume h: "t = Some tag \<and> map_of (mapping (schema cxt)) tag = Some branch"
    from firstPass_state [OF assms(2)] h
    have k: "\<exists>key. discriminator (schema cxt) = Some key \<and>
               data = (if key = ''__proto__'' then [] else [(key, JStr tag)])"
      by simp
    from h have "parseDiscriminator pc n cxt json jsonPos =
              andThen (parseSchemaProperties pc n (cxt\<lparr>schema := branch\<rparr>) json
                         (discriminator (schema cxt)) data startPos)
                (\<lambda>d q. Done (JObj d) q)"
      by (simp add: pd mappingChain_found)
    with k show "(\<exists>key. discriminator (schema cxt) = Some key \<and>
               data = (if key = ''__proto__'' then [] else [(key, JStr tag)])) \<and>
            parseDiscriminator pc n cxt json jsonPos =
              andThen (parseSchemaProperties pc n (cxt\<lparr>schema := branch\<rparr>) json
                         (discriminator (schema cxt)) data startPos)
                (\<lambda>d q. Done (JObj d) q)"
      by (rule conjI)
  qed
  have d: "\<forall>st q key q1 q2.
            parseString cxt json q = Done key q1 \<and> parseToken cxt json '':'' q1 = Done () q2 \<longrightarrow>
            discriminatorBlock cxt json st q =
              (if Some key = discriminator (schema cxt)
               then andThen (parseString cxt json q2)
                      (\<lambda>tag q3. Done (True, Some tag,
                                  if key = ''__proto__'' then snd st
                                  else objSet (snd st) key (JStr tag)) q3)
               else andThen (parseEmpty cxt json q2) (\<lambda>v q3. Done (False, st) q3))"
    by (simp add: discriminatorBlock_def)
  have e: "\<forall>m st q st' q'.
            q < length json \<and> json ! q \<noteq> CHR ''}'' \<and>
            discriminatorBlock cxt json st q = Done (True, st') q' \<longrightarrow>
            tryParseItems (Suc m) cxt json ''}'' (discriminatorBlock cxt json) st q = Done st' q'"
    by (simp add: jsonSlice_def)
  have f: "\<forall>branch key d q.
            discriminator (schema cxt) = Some key \<and> key \<noteq> [] \<and>
            key \<notin> set (map fst (optObj (properties branch))) \<and>
            key \<notin> set (map fst (optObj (optionalProperties branch))) \<longrightarrow>
            propertyChain pc (cxt\<lparr>schema := branch\<rparr>) json (discriminator (schema cxt)) key d q =
              andThen (parseString (cxt\<lparr>schema := branch\<rparr>) json q) (\<lambda>tag q'. Done d q')"
    by (simp add: propertyChain_def parseDefinedProperty_skip truthy_def)
  from a b c d e f show ?thesis by (intro conjI)
qed

text \<open>
  The examples of the spec: \<^verbatim>\<open>{"type":"b","y":"hi"}\<close> is parsed by branch \<^verbatim>\<open>b\<close>,
  \<^verbatim>\<open>{"type":"c"}\<close> has a tag that is not in the mapping, \<^verbatim>\<open>{"y":"hi"}\<close> has no
  tag.
\<close>

theorem parseDiscriminator_two_pass_witness:
  "parseToken (mkCxt [] exampleUnion) ''{\"type\":\"b\",\"y\":\"hi\"}'' ''{'' 0 = Done () 1 \<and>
   tryParseItems 2 (mkCxt [] exampleUnion) ''{\"type\":\"b\",\"y\":\"hi\"}'' ''}''
     (discriminatorBlock (mkCxt [] exampleUnion) ''{\"type\":\"b\",\"y\":\"hi\"}'') (None, []) 1
     = Done (Some ''b'', [(''type'', JStr ''b'')]) 11 \<and>
   parseDiscriminator (parseCode 2) 2 (mkCxt [] exampleUnion) ''{\"type\":\"b\",\"y\":\"hi\"}'' 0
     = Done (JObj [(''type'', JStr ''b''), (''y'', JStr ''hi'')]) 21 \<and>
   parse 3 (mkCxt [] exampleUnion) ''{\"type\":\"c\"}'' None False None
     = (RUndefined, Some \<lparr>message = ''discriminator value not in schema'', position = 1\<rparr>) \<and>
   parse 3 (mkCxt [] exampleUnion) ''{\"y\":\"hi\"}'' None False None
     = (RUndefined, Some \<lparr>message = ''discriminator tag not found'', position = 1\<rparr>)"
proof -
  let ?c = "mkCxt [] exampleUnion"
  let ?j = "''{\"type\":\"b\",\"y\":\"hi\"}''"
  let ?b = "propertiesSchema [(''y'', typeSchema TString)] False"
  have h1: "parseToken ?c ?j ''{'' 0 = Done () 1"
    by code_simp
  have h2: "tryParseItems 2 ?c ?j ''}'' (discriminatorBlock ?c ?j) (None, []) 1
     = Done (Some ''b'', [(''type'', JStr ''b'')]) 11"
    by code_simp
  have m: "map_of (mapping (schema ?c)) ''b'' = Some ?b"
    by code_simp
  have r: "andThen (parseSchemaProperties (parseCode 2) 2 (?c\<lparr>schema := ?b\<rparr>) ?j
                      (discriminator (schema ?c)) [(''type'', JStr ''b'')] 1)
             (\<lambda>d q. Done (JObj d) q)
           = Done (JObj [(''type'', JStr ''b''), (''y'', JStr ''hi'')]) 21"
    by code_simp
  have c1: "parse 3 ?c ''{\"type\":\"c\"}'' None False None
     = (RUndefined, Some \<lparr>message = ''discriminator value not in schema'', position = 1\<rparr>)"
    by code_simp
  have c2: "parse 3 ?c ''{\"y\":\"hi\"}'' None False None
     = (RUndefined, Some \<lparr>message = ''discriminator tag not found'', position = 1\<rparr>)"
    by code_simp
  from parseDiscriminator_two_pass [OF h1 h2, of "parseCode 2"] m
  have "parseDiscriminator (parseCode 2) 2 ?c ?j 0 =
          andThen (parseSchemaProperties (parseCode 2) 2 (?c\<lparr>schema := ?b\<rparr>) ?j
                      (discriminator (schema ?c)) [(''type'', JStr ''b'')] 1)
             (\<lambda>d q. Done (JObj d) q)"
    by blast
  with r have "parseDiscriminator (parseCode 2) 2 ?c ?j 0
     = Done (JObj [(''type'', JStr ''b''), (''y'', JStr ''hi'')]) 21"
    by simp
  with h1 h2 c1 c2 show ?thesis by simp
qed

text \<open>
  C1. A discriminator schema is parsed in two passes: the first finds the tag, the
  position is rewound, and the object is parsed again by the properties generator
  of the matched branch, which is meant to recognize the tag field without
  assigning it again. The code misses this for a tag field with the empty name: on
  the second pass \<^verbatim>\<open>parseSchemaProperties\<close> tests \<^verbatim>\<open>if (discriminator)\<close>, the empty
  string counts as no discriminator, and the tag key, stored by the first pass, is
  rejected as a duplicate property. The schema
  \<^verbatim>\<open>{discriminator: "", mapping: {a: {optionalProperties: {x: {type: "int8"}}}}}\<close>
  compiles; the first pass on \<^verbatim>\<open>{"":"a"}\<close> finds the tag \<^verbatim>\<open>a\<close> and stores it, and
  the second pass throws, where the same schema with the tag name \<^verbatim>\<open>t\<close> parses
  \<^verbatim>\<open>{"t":"a"}\<close>.
\<close>

theorem second_pass_empty_tag:
  "fst (compileParser 3 refCollaborators [] \<lparr>compilations = []\<rparr> (newSchemaEnv emptyTagUnion)) = None \<and>
   tryParseItems 2 (mkCxt [] emptyTagUnion) ''{\"\":\"a\"}'' ''}''
     (discriminatorBlock (mkCxt [] emptyTagUnion) ''{\"\":\"a\"}'') (None, []) 1
     = Done (Some ''a'', [([], JStr ''a'')]) 7 \<and>
   parseDiscriminator (parseCode 2) 2 (mkCxt [] emptyTagUnion) ''{\"\":\"a\"}'' 0
     = Thrown ''JSON: duplicate property '' \<and>
   fst (compileParser 3 refCollaborators [] \<lparr>compilations = []\<rparr> (newSchemaEnv tagUnion)) = None \<and>
   parseDiscriminator (parseCode 2) 2 (mkCxt [] tagUnion) ''{\"t\":\"a\"}'' 0
     = Done (JObj [(''t'', JStr ''a'')]) 9"
  by code_simp

subsection \<open>The error slot\<close>

text \<open>
  The routine stores \<^verbatim>\<open>undefined\<close> in its error slot before it parses: what an
  invocation returns and leaves in the slot does not depend on what the slot held.
\<close>

lemma parse_resets_slot:
  "parse n cxt json jsonPos jsonPart e0 = parse n cxt json jsonPos jsonPart None"
  by (simp add: parse_def parserFunction_def)

text \<open>
  An invocation that completes or throws leaves the slot \<^verbatim>\<open>undefined\<close>, unless it
  fails on trailing text; an invocation that ends in \<^verbatim>\<open>parsingError\<close> leaves in
  the slot what \<^verbatim>\<open>parsingError\<close> was given.
\<close>

lemma parse_slot:
  "snd (parse n cxt json jsonPos jsonPart e0) =
     (case parseCode n cxt json (case jsonPos of None \<Rightarrow> 0 | Some q \<Rightarrow> q) of
        Done data p \<Rightarrow>
          (if jsonPart \<or> skipWhitespace (self cxt) json p = length json then None
           else Some \<lparr>message = ''unexpected token '' @
                          (if skipWhitespace (self cxt) json p < length json
                           then [json ! skipWhitespace (self cxt) json p] else ''undefined''),
                       position = skipWhitespace (self cxt) json p\<rparr>)
      | Failed e p \<Rightarrow> e
      | _ \<Rightarrow> None)"
  by (simp add: parse_def parserFunction_def returnFrom_def whitespace_def jsonSyntaxError_Failed
      Let_def split: outcome.split)

text \<open>
  C10. The routine resets its error slot at the start of every invocation, and the
  slot is meant to hold an error record after the invocation if and only if the
  invocation failed. The code misses this for a member named \<^verbatim>\<open>__proto__\<close> whose
  value is \<^verbatim>\<open>null\<close>, where the schema lets additional properties through:
  \<^verbatim>\<open>partialParse\<close> assigns the \<^verbatim>\<open>null\<close> that the scanner has returned to
  \<^verbatim>\<open>data["__proto__"]\<close>, reads the target back as \<^verbatim>\<open>undefined\<close>, takes that for a
  failure of the scanner and stores the error property of the scanner, which has
  not failed. The schema \<^verbatim>\<open>{optionalProperties: {}, additionalProperties: true}\<close>
  compiles; on \<^verbatim>\<open>{"__proto__":null}\<close> its routine returns the failure sentinel, in
  either mode, and leaves the slot \<^verbatim>\<open>undefined\<close>, whatever the slot held before. On
  \<^verbatim>\<open>{"a":null}\<close> it returns the object, and on \<^verbatim>\<open>{"a":nul}\<close> it fails with a
  record.
\<close>

theorem error_slot_proto_null:
  "fst (compileParser 3 refCollaborators [] \<lparr>compilations = []\<rparr>
          (newSchemaEnv (optionalPropertiesSchema [] True))) = None \<and>
   parse 3 (mkCxt [] (optionalPropertiesSchema [] True)) ''{\"__proto__\":null}'' None False
     (Some \<lparr>message = ''unexpected token x'', position = 0\<rparr>) = (RUndefined, None) \<and>
   parse 3 (mkCxt [] (optionalPropertiesSchema [] True)) ''{\"__proto__\":null}'' None True None
     = (RPair None 17, None) \<and>
   parse 3 (mkCxt [] (optionalPropertiesSchema [] True)) ''{\"a\":null}'' None False None
     = (RValue (JObj [(''a'', JNull)]), None) \<and>
   parse 3 (mkCxt [] (optionalPropertiesSchema [] True)) ''{\"a\":nul}'' None False None
     = (RUndefined, Some \<lparr>message = ''unexpected token n'', position = 5\<rparr>)"
  by code_simp

subsection \<open>Construction errors\<close>

lemma genEach_compilations:
  "(\<And>x a. compilations (snd (g x a)) = compilations a) \<Longrightarrow>
   compilations (snd (genEach g xs ajv)) = compilations ajv"
proof (induction xs arbitrary: ajv)
  case Nil
  show ?case by simp
next
  case (Cons x xs)
  obtain e a where r: "g x ajv = (e, a)"
    by (cases "g x ajv") auto
  with Cons.prems [of x ajv] have "compilations a = compilations ajv"
    by simp
  with r Cons.IH [OF Cons.prems, of a] show ?case
    by (cases e) simp_all
qed

lemma genSchemaProperties_compilations:
  "(\<And>c a. compilations (snd (gc c a)) = compilations a) \<Longrightarrow>
   compilations (snd (genSchemaProperties gc cxt ajv)) = compilations ajv"
proof -
  assume gc: "\<And>c a. compilations (snd (gc c a)) = compilations a"
  let ?g = "\<lambda>kv. gc (cxt\<lparr>schema := snd kv\<rparr>)"
  let ?xs = "optObj (properties (schema cxt)) @ optObj (optionalProperties (schema cxt))"
  obtain e a where r: "genEach ?g ?xs ajv = (e, a)"
    by (cases "genEach ?g ?xs ajv") auto
  have "compilations (snd (genEach ?g ?xs ajv)) = compilations ajv"
    by (rule genEach_compilations) (rule gc)
  with r have "compilations a = compilations ajv"
    by simp
  with r show ?thesis
    by (cases e) (simp_all add: genSchemaProperties_def)
qed

lemma genDiscriminator_compilations:
  "(\<And>c a. compilations (snd (gc c a)) = compilations a) \<Longrightarrow>
   compilations (snd (genDiscriminator gc cxt ajv)) = compilations ajv"
  by (simp add: genDiscriminator_def genEach_compilations genSchemaProperties_compilations)

lemma genRef_compilations:
  "(\<And>c a. compilations (snd (gc c a)) = compilations a) \<Longrightarrow>
   (\<And>a s. compilations (snd (snd (cp a s))) = compilations a) \<Longrightarrow>
   compilations (snd (genRef gc cp cxt ajv)) = compilations ajv"
proof -
  assume gc: "\<And>c a. compilations (snd (gc c a)) = compilations a"
    and cp: "\<And>a s. compilations (snd (snd (cp a s))) = compilations a"
  have "compilations (snd (case cp ajv s of (e, sch, ajv') \<Rightarrow> (e, ajv'))) = compilations ajv" for s
    using cp [of ajv s] by (cases "cp ajv s") simp
  with gc show ?thesis
    by (simp add: genRef_def split: option.splits)
qed

lemma compileParser_step:
  assumes "\<And>c a. compilations (snd (genCode n c a)) = compilations a"
  shows "compilations (snd (snd (compileParser n this defs ajv sch))) = compilations ajv"
proof (cases "envSchema sch \<in> set (compilations ajv)")
  case True
  then show ?thesis by (simp add: getCompilingSchema_def)
next
  case False
  let ?c = "\<lparr>self = this, definitions = defs, schema = envSchema sch\<rparr>"
  let ?a = "ajv\<lparr>compilations := envSchema sch # compilations ajv\<rparr>"
  obtain e a where r: "genCode n ?c ?a = (e, a)"
    by (cases "genCode n ?c ?a") auto
  with assms [of ?c ?a] have "compilations a = envSchema sch # compilations ajv"
    by simp
  with False r show ?thesis
    by (cases e) (simp_all add: getCompilingSchema_def Let_def)
qed

lemma genCode_compilations:
  "compilations (snd (genCode n cxt ajv)) = compilations ajv"
proof (induction n arbitrary: cxt ajv)
  case 0
  show ?case by simp
next
  case (Suc n)
  have cp: "compilations (snd (snd (compileParser n this defs a s))) = compilations a" for this defs a s
    using Suc.IH by (rule compileParser_step)
  show ?case
  proof (cases "selectForm (schema cxt)")
    case None
    then show ?thesis by simp
  next
    case (Some form)
    then show ?thesis
      using Suc.IH cp
      by (cases form)
         (simp_all add: genDiscriminator_compilations genSchemaProperties_compilations
            genRef_compilations split: option.splits)
  qed
qed

lemma compileParser_compilations:
  "compilations (snd (snd (compileParser n this defs ajv sch))) = compilations ajv"
  using genCode_compilations by (rule compileParser_step)

lemma compileParser_failure:
  assumes "compileParser n this defs ajv sch = (Some e, sch', ajv')"
  shows "parseFn sch' = None \<and> parseName sch' = None"
proof (cases "envSchema sch \<in> set (compilations ajv)")
  case True
  with assms show ?thesis by (simp add: getCompilingSchema_def)
next
  case False
  let ?c = "\<lparr>self = this, definitions = defs, schema = envSchema sch\<rparr>"
  let ?a = "ajv\<lparr>compilations := envSchema sch # compilations ajv\<rparr>"
  obtain e2 a where r: "genCode n ?c ?a = (e2, a)"
    by (cases "genCode n ?c ?a") auto
  with False assms show ?thesis
    by (cases e2) (auto simp add: getCompilingSchema_def Let_def)
qed

text \<open>
  When the schema of the environment being compiled is a reference whose name is
  found neither in the table of definitions nor on \<^verbatim>\<open>Object.prototype\<close>,
  \<^verbatim>\<open>compileParser\<close> throws the missing-reference error while it generates (no
  routine exists, so no text is ever parsed), and it leaves the environment without
  parse function and without parse name and the registry of in-flight compilations
  as it found it. The same holds after any failure of \<^verbatim>\<open>compileParser\<close>, for any
  schema: the parse function and the name are removed and the registration is
  cleared.
\<close>

theorem missing_ref_aborts_compilation:
  assumes "selectForm (envSchema sch) = Some FRef"
    and "ref (envSchema sch) = Some r"
    and "lookupDefinition defs r = None"
    and "envSchema sch \<notin> set (compilations ajv)"
  shows "compileParser (Suc n) this defs ajv sch
           = (Some (MissingRefError r), sch\<lparr>parseFn := None, parseName := None\<rparr>, ajv) \<and>
         (\<forall>m e sch' ajv' other.
            compileParser m this defs ajv other = (Some e, sch', ajv') \<longrightarrow>
            parseFn sch' = None \<and> parseName sch' = None \<and> compilations ajv' = compilations ajv)"
proof -
  have "compileParser (Suc n) this defs ajv sch
           = (Some (MissingRefError r), sch\<lparr>parseFn := None, parseName := None\<rparr>, ajv)"
    using assms by (simp add: getCompilingSchema_def genRef_def Let_def)
  moreover have "parseFn sch' = None \<and> parseName sch' = None \<and> compilations ajv' = compilations ajv"
    if "compileParser m this defs ajv other = (Some e, sch', ajv')" for m e sch' ajv' other
    using that compileParser_failure [OF that] compileParser_compilations [of m this defs ajv other]
    by simp
  ultimately show ?thesis by blast
qed

text \<open>
  The schema \<^verbatim>\<open>{ref: "x"}\<close> without definitions; and, for a reference below the
  root, \<^verbatim>\<open>{values: {ref: "x"}}\<close>.
\<close>

theorem missing_ref_aborts_compilation_witness:
  "selectForm (envSchema (newSchemaEnv (refTo ''x''))) = Some FRef \<and>
   ref (envSchema (newSchemaEnv (refTo ''x''))) = Some ''x'' \<and>
   lookupDefinition [] ''x'' = None \<and>
   envSchema (newSchemaEnv (refTo ''x'')) \<notin> set (compilations \<lparr>compilations = []\<rparr>) \<and>
   compileParser (Suc 0) refCollaborators [] \<lparr>compilations = []\<rparr> (newSchemaEnv (refTo ''x''))
     = (Some (MissingRefError ''x''), newSchemaEnv (refTo ''x''), \<lparr>compilations = []\<rparr>) \<and>
   fst (compileParser 2 refCollaborators [] \<lparr>compilations = []\<rparr> (newSchemaEnv (valuesSchema (refTo ''x''))))
     = Some (MissingRefError ''x'')"
proof -
  have h1: "selectForm (envSchema (newSchemaEnv (refTo ''x''))) = Some FRef"
    by code_simp
  have h2: "ref (envSchema (newSchemaEnv (refTo ''x''))) = Some ''x''"
    by code_simp
  have h3: "lookupDefinition [] ''x'' = None"
    by code_simp
  have h4: "envSchema (newSchemaEnv (refTo ''x'')) \<notin> set (compilations \<lparr>compilations = []\<rparr>)"
    by simp
  have n: "fst (compileParser 2 refCollaborators [] \<lparr>compilations = []\<rparr>
                  (newSchemaEnv (valuesSchema (refTo ''x'')))) = Some (MissingRefError ''x'')"
    by code_simp
  from missing_ref_aborts_compilation [OF h1 h2 h3 h4, of 0 refCollaborators]
  have "compileParser (Suc 0) refCollaborators [] \<lparr>compilations = []\<rparr> (newSchemaEnv (refTo ''x''))
     = (Some (MissingRefError ''x''), newSchemaEnv (refTo ''x''), \<lparr>compilations = []\<rparr>)"
    by (simp add: newSchemaEnv_def)
  with h1 h2 h3 h4 n show ?thesis by simp
qed

text \<open>
  C8. A reference whose name is absent from the table of definitions is meant to
  abort the compilation with a missing-reference error, after which the environment
  has neither parse function nor parse name and the registration is cleared. The
  code misses this for a name that the table inherits from \<^verbatim>\<open>Object.prototype\<close>:
  \<^verbatim>\<open>definitions[ref]\<close> finds the inherited member, which is truthy, and
  \<^verbatim>\<open>parseRef\<close> goes on with it as if it were a schema. With no definitions at all,
  \<^verbatim>\<open>{ref: "toString"}\<close> compiles: the environment gets its name and a routine,
  which accepts any value, and \<^verbatim>\<open>{ref: "constructor"}\<close> compiles to a routine that
  accepts any object. The name \<^verbatim>\<open>x\<close>, which nothing inherits, aborts the
  compilation as described, at the root and below any form, in place or through a
  routine of its own.
\<close>

theorem inherited_name_compiles:
  "fst (compileParser 2 refCollaborators [] \<lparr>compilations = []\<rparr> (newSchemaEnv (refTo ''toString'')))
     = None \<and>
   parseName (fst (snd (compileParser 2 refCollaborators [] \<lparr>compilations = []\<rparr>
                          (newSchemaEnv (refTo ''toString''))))) = Some ''parse'' \<and>
   (case parseFn (fst (snd (compileParser 2 refCollaborators [] \<lparr>compilations = []\<rparr>
                              (newSchemaEnv (refTo ''toString''))))) of
      None \<Rightarrow> False
    | Some f \<Rightarrow> f 3 ''[1]'' None False None = (RValue (JArr [JNum 1]), None)) \<and>
   (case parseFn (fst (snd (compileParser 3 refCollaborators [] \<lparr>compilations = []\<rparr>
                              (newSchemaEnv (refTo ''constructor''))))) of
      None \<Rightarrow> False
    | Some f \<Rightarrow> f 4 ''{\"a\":[1]}'' None False None = (RValue (JObj [(''a'', JArr [JNum 1])]), None)) \<and>
   fst (compileParser 2 refCollaborators [] \<lparr>compilations = []\<rparr> (newSchemaEnv (refTo ''x'')))
     = Some (MissingRefError ''x'') \<and>
   parseName (fst (snd (compileParser 2 refCollaborators [] \<lparr>compilations = []\<rparr>
                          (newSchemaEnv (refTo ''x''))))) = None \<and>
   (case parseFn (fst (snd (compileParser 2 refCollaborators [] \<lparr>compilations = []\<rparr>
                              (newSchemaEnv (refTo ''x''))))) of
      None \<Rightarrow> True
    | Some f \<Rightarrow> False) \<and>
   snd (snd (compileParser 2 refCollaborators [] \<lparr>compilations = []\<rparr> (newSchemaEnv (refTo ''x''))))
     = \<lparr>compilations = []\<rparr> \<and>
   fst (compileParser 3 refCollaborators [] \<lparr>compilations = []\<rparr>
          (newSchemaEnv (Schema (Some (refTo ''x'')) None None [] None None False None None None False)))
     = Some (MissingRefError ''x'') \<and>
   fst (compileParser 3 refCollaborators [] \<lparr>compilations = []\<rparr>
          (newSchemaEnv (valuesSchema (refTo ''x'')))) = Some (MissingRefError ''x'') \<and>
   fst (compileParser 3 refCollaborators [] \<lparr>compilations = []\<rparr>
          (newSchemaEnv (propertiesSchema [(''a'', typeSchema TString), (''b'', refTo ''x'')] False)))
     = Some (MissingRefError ''x'') \<and>
   fst (compileParser 3 refCollaborators [] \<lparr>compilations = []\<rparr>
          (newSchemaEnv (optionalPropertiesSchema [(''b'', refTo ''x'')] False)))
     = Some (MissingRefError ''x'') \<and>
   fst (compileParser 3 refCollaborators [] \<lparr>compilations = []\<rparr>
          (newSchemaEnv (discriminatorSchema ''t'' [(''a'', propertiesSchema [(''b'', refTo ''x'')] False)])))
     = Some (MissingRefError ''x'') \<and>
   fst (compileParser 3 refCollaborators [(''d'', refTo ''x'')] \<lparr>compilations = []\<rparr>
          (newSchemaEnv (refTo ''d''))) = Some (MissingRefError ''x'') \<and>
   fst (compileParser 3 refCollaborators [(''d'', typeSchema TString)] \<lparr>compilations = []\<rparr>
          (newSchemaEnv (refTo ''d''))) = None"
  by code_simp

subsection \<open>The cursor never moves backwards\<close>

lemma notBefore_simps [simp]:
  "notBefore p (Done v q) = (p \<le> q)"
  "notBefore p (Failed e q) = (p \<le> q)"
  "notBefore p (Thrown x)"
  "notBefore p ProtoKey"
  "notBefore p Timeout"
  by (simp_all add: notBefore_def)

lemma notBefore_mono: "p \<le> p' \<Longrightarrow> notBefore p' m \<Longrightarrow> notBefore p m"
  by (cases m) simp_all

lemma notBefore_andThen:
  "notBefore p m \<Longrightarrow> (\<And>a q. notBefore q (f a q)) \<Longrightarrow> notBefore p (andThen m f)"
  by (cases m) (auto intro: notBefore_mono)

lemma notBefore_syntax [simp]:
  "notBefore p (jsonSyntaxError json p)" "notBefore p (parsingErrorMsg msg p)"
  by (simp_all add: jsonSyntaxError_Failed parsingErrorMsg_Failed)

lemma scannerAdvances_ws: "scannerAdvances c \<Longrightarrow> p \<le> skipWhitespace c json p"
  by (simp add: scannerAdvances_def)

lemma notBefore_tryParseToken:
  "scannerAdvances (self cxt) \<Longrightarrow> (\<And>q. notBefore q (fail q)) \<Longrightarrow> (\<And>q. notBefore q (success q)) \<Longrightarrow>
   notBefore p (tryParseToken cxt json tok fail success p)"
  using scannerAdvances_ws [of "self cxt" p json]
  by (auto simp add: tryParseToken_def whitespace_def Let_def intro: notBefore_mono trans_le_add1)

lemma notBefore_parseToken:
  "scannerAdvances (self cxt) \<Longrightarrow> notBefore p (parseToken cxt json tok p)"
  by (simp add: parseToken_def notBefore_tryParseToken)

lemma notBefore_partialParse:
  "p \<le> fst (snd r) \<Longrightarrow> notBefore p (partialParse r)"
  by (cases r) (auto simp add: partialParse_def parsingError_def split: option.splits)

lemma notBefore_parseString:
  "scannerAdvances (self cxt) \<Longrightarrow> notBefore p (parseString cxt json p)"
  by (auto simp add: parseString_def scannerAdvances_def notBefore_parseToken
      intro!: notBefore_andThen notBefore_partialParse)

lemma notBefore_parseEmpty:
  "scannerAdvances (self cxt) \<Longrightarrow> notBefore p (parseEmpty cxt json p)"
  by (auto simp add: parseEmpty_def scannerAdvances_def intro!: notBefore_partialParse)

lemma notBefore_parseEmptyProto:
  assumes "scannerAdvances (self cxt)"
  shows "notBefore p (parseEmptyProto cxt json p)"
proof -
  obtain x q e where r: "parseJson (self cxt) json p = (x, q, e)"
    by (cases "parseJson (self cxt) json p") auto
  from assms have "p \<le> fst (snd (parseJson (self cxt) json p))"
    by (simp add: scannerAdvances_def)
  with r have "p \<le> q" by simp
  with r show ?thesis
    by (simp add: parseEmptyProto_def parsingError_def split: option.split jvalue.split)
qed

lemma notBefore_parseNumber:
  "scannerAdvances (self cxt) \<Longrightarrow> notBefore p (parseNumber cxt json m p)"
proof -
  assume a: "scannerAdvances (self cxt)"
  let ?q = "skipWhitespace (self cxt) json p"
  have "p \<le> ?q" using a by (rule scannerAdvances_ws)
  moreover have "notBefore ?q (jsonSyntaxError json ?q)" by simp
  moreover have "notBefore ?q (partialParse (parseJsonNumber (self cxt) json ?q m))"
    using a by (auto simp add: scannerAdvances_def intro!: notBefore_partialParse)
  ultimately show ?thesis
    by (auto simp add: parseNumber_def Let_def intro: notBefore_mono)
qed

lemma notBefore_parseType:
  "scannerAdvances (self cxt) \<Longrightarrow> notBefore p (parseType cxt json p)"
  by (auto simp add: parseType_def parseBoolean_def notBefore_parseString notBefore_parseNumber
      split: option.splits JTDType.splits prod.splits
      intro!: notBefore_andThen notBefore_tryParseToken)

lemma notBefore_enumChain: "notBefore p (enumChain json enumSch p)"
  by (induction enumSch) (simp_all add: Let_def)

lemma notBefore_parseEnum:
  "scannerAdvances (self cxt) \<Longrightarrow> notBefore p (parseEnum cxt json p)"
  by (auto simp add: parseEnum_def notBefore_enumChain notBefore_parseToken split: option.splits
      intro!: notBefore_andThen)

lemma notBefore_tryParseItems:
  "scannerAdvances (self cxt) \<Longrightarrow> (\<And>s q. notBefore q (block s q)) \<Longrightarrow>
   notBefore p (tryParseItems n cxt json tok block s p)"
  by (induction n arbitrary: s p) (auto intro!: notBefore_andThen notBefore_tryParseToken)

lemma notBefore_parseItems:
  "scannerAdvances (self cxt) \<Longrightarrow> (\<And>s q. notBefore q (block s q)) \<Longrightarrow>
   notBefore p (parseItems n cxt json tok block s p)"
  by (auto simp add: parseItems_def notBefore_parseToken intro!: notBefore_andThen notBefore_tryParseItems)

lemma notBefore_noBreak: "notBefore p m \<Longrightarrow> notBefore p (noBreak m)"
  by (simp add: noBreak_def notBefore_andThen)

lemma notBefore_parsePropertyValue:
  "(\<And>s q. notBefore q (pc (cxt\<lparr>schema := s\<rparr>) json q)) \<Longrightarrow>
   notBefore p (parsePropertyValue pc cxt json key sch data p)"
  by (simp add: parsePropertyValue_def notBefore_andThen)

lemma notBefore_parseKeyValue:
  "scannerAdvances (self cxt) \<Longrightarrow> (\<And>s q. notBefore q (pc (cxt\<lparr>schema := s\<rparr>) json q)) \<Longrightarrow>
   notBefore p (parseKeyValue pc cxt json sch data p)"
  by (auto simp add: parseKeyValue_def checkDuplicateProperty_def notBefore_parseString
      notBefore_parsePropertyValue notBefore_parseToken intro!: notBefore_andThen)

lemma notBefore_parseElements:
  "scannerAdvances (self cxt) \<Longrightarrow> (\<And>s q. notBefore q (pc (cxt\<lparr>schema := s\<rparr>) json q)) \<Longrightarrow>
   notBefore p (parseElements pc n cxt json p)"
  by (auto simp add: parseElements_def notBefore_parseToken split: option.splits
      intro!: notBefore_andThen notBefore_parseItems notBefore_noBreak)

lemma notBefore_parseValues:
  "scannerAdvances (self cxt) \<Longrightarrow> (\<And>s q. notBefore q (pc (cxt\<lparr>schema := s\<rparr>) json q)) \<Longrightarrow>
   notBefore p (parseValues pc n cxt json p)"
  by (auto simp add: parseValues_def notBefore_parseToken split: option.splits
      intro!: notBefore_andThen notBefore_parseItems notBefore_noBreak notBefore_parseKeyValue)

lemma notBefore_parseDefinedProperty:
  "(\<And>s q. notBefore q (pc (cxt\<lparr>schema := s\<rparr>) json q)) \<Longrightarrow> (\<And>q. notBefore q (rest q)) \<Longrightarrow>
   notBefore p (parseDefinedProperty pc cxt json key schemas data rest p)"
  by (induction schemas) (auto simp add: notBefore_parsePropertyValue)

lemma notBefore_propertyChain:
  "scannerAdvances (self cxt) \<Longrightarrow> (\<And>s q. notBefore q (pc (cxt\<lparr>schema := s\<rparr>) json q)) \<Longrightarrow>
   notBefore p (propertyChain pc cxt json disc key data p)"
  by (auto simp add: propertyChain_def notBefore_parseString notBefore_parseEmpty
      notBefore_parseEmptyProto intro!: notBefore_parseDefinedProperty notBefore_andThen)

lemma notBefore_propertiesBlock:
  "scannerAdvances (self cxt) \<Longrightarrow> (\<And>s q. notBefore q (pc (cxt\<lparr>schema := s\<rparr>) json q)) \<Longrightarrow>
   notBefore p (propertiesBlock pc cxt json disc data p)"
  by (auto simp add: propertiesBlock_def checkDuplicateProperty_def notBefore_parseString
      notBefore_propertyChain notBefore_parseToken intro!: notBefore_andThen)

lemma notBefore_parseSchemaProperties:
  "scannerAdvances (self cxt) \<Longrightarrow> (\<And>s q. notBefore q (pc (cxt\<lparr>schema := s\<rparr>) json q)) \<Longrightarrow>
   notBefore p (parseSchemaProperties pc n cxt json disc data p)"
  by (auto simp add: parseSchemaProperties_def notBefore_propertiesBlock split: option.splits
      intro!: notBefore_andThen notBefore_parseItems notBefore_noBreak)

lemma notBefore_parseProperties:
  "scannerAdvances (self cxt) \<Longrightarrow> (\<And>s q. notBefore q (pc (cxt\<lparr>schema := s\<rparr>) json q)) \<Longrightarrow>
   notBefore p (parseProperties pc n cxt json p)"
  by (auto simp add: parseProperties_def notBefore_parseSchemaProperties notBefore_parseToken
      intro!: notBefore_andThen)

lemma notBefore_discriminatorBlock:
  "scannerAdvances (self cxt) \<Longrightarrow> notBefore p (discriminatorBlock cxt json st p)"
  by (auto simp add: discriminatorBlock_def notBefore_parseString notBefore_parseEmpty
      notBefore_parseToken intro!: notBefore_andThen)

lemma notBefore_mappingChain:
  "scannerAdvances (self cxt) \<Longrightarrow> (\<And>s q. notBefore q (pc (cxt\<lparr>schema := s\<rparr>) json q)) \<Longrightarrow>
   notBefore p (mappingChain pc n cxt json tag branches data p)"
  by (induction branches) (auto intro!: notBefore_parseSchemaProperties)

lemma notBefore_andThen_same:
  "notBefore p m \<Longrightarrow> (\<And>a q. notBefore p (f a q)) \<Longrightarrow> notBefore p (andThen m f)"
  by (cases m) auto

lemma notBefore_parseDiscriminator:
  assumes adv: "scannerAdvances (self cxt)"
    and pc: "\<And>s q. notBefore q (pc (cxt\<lparr>schema := s\<rparr>) json q)"
  shows "notBefore p (parseDiscriminator pc n cxt json p)"
proof -
  have second: "notBefore sp
      (andThen (tryParseItems n cxt json ''}'' (discriminatorBlock cxt json) (None, []) sp)
         (\<lambda>st _. case fst st of
                    None \<Rightarrow> parsingErrorMsg ''discriminator tag not found'' sp
                  | Some tag \<Rightarrow>
                      andThen (mappingChain pc n cxt json tag (mapping (schema cxt)) (snd st) sp)
                        (\<lambda>data p. Done (JObj data) p)))" for sp
  proof (rule notBefore_andThen_same)
    show "notBefore sp (tryParseItems n cxt json ''}'' (discriminatorBlock cxt json) (None, []) sp)"
      using adv by (simp add: notBefore_tryParseItems notBefore_discriminatorBlock)
  next
    fix st :: "string option \<times> (string \<times> jvalue) list" and q :: nat
    have "notBefore sp (andThen (mappingChain pc n cxt json tag (mapping (schema cxt)) (snd st) sp)
                        (\<lambda>data p. Done (JObj data) p))" for tag
      using adv pc by (auto intro!: notBefore_andThen notBefore_mappingChain)
    then show "notBefore sp (case fst st of
                    None \<Rightarrow> parsingErrorMsg ''discriminator tag not found'' sp
                  | Some tag \<Rightarrow>
                      andThen (mappingChain pc n cxt json tag (mapping (schema cxt)) (snd st) sp)
                        (\<lambda>data p. Done (JObj data) p))"
      by (simp split: option.splits)
  qed
  show ?thesis
    unfolding parseDiscriminator_def
    by (rule notBefore_andThen) (use adv second in \<open>simp_all add: notBefore_parseToken\<close>)
qed

lemma parserFunction_partial_cases:
  "parserFunction pc cxt json (Some p) True e0 =
     (case pc cxt json p of
        Done v q \<Rightarrow> (RPair (Some v) (skipWhitespace (self cxt) json q), None)
      | Failed e q \<Rightarrow> (RPair None q, e)
      | Thrown x \<Rightarrow> (RThrown x, None)
      | ProtoKey \<Rightarrow> (RProtoKey, None)
      | Timeout \<Rightarrow> (RTimeout, None))"
  by (simp add: parserFunction_def returnFrom_def whitespace_def Let_def split: outcome.splits)

lemma parseRef_unit_call:
  "(case parserFunction pc cxt json (Some p) True None of
      (RPair (Some v) q, e) \<Rightarrow> Done v q
    | (RPair None q, e) \<Rightarrow> parsingError e q
    | (RThrown x, e) \<Rightarrow> Thrown x
    | (RProtoKey, e) \<Rightarrow> ProtoKey
    | (RTimeout, e) \<Rightarrow> Timeout
    | (RValue v, e) \<Rightarrow> Thrown ''TypeError''
    | (RUndefined, e) \<Rightarrow> Thrown ''TypeError'') =
   (case pc cxt json p of
      Done v q \<Rightarrow> Done v (skipWhitespace (self cxt) json q)
    | Failed e q \<Rightarrow> Failed e q
    | Thrown x \<Rightarrow> Thrown x
    | ProtoKey \<Rightarrow> ProtoKey
    | Timeout \<Rightarrow> Timeout)"
  by (simp add: parserFunction_partial_cases parsingError_def split: outcome.splits)

lemma notBefore_parseRef:
  assumes adv: "scannerAdvances (self cxt)"
    and pc: "\<And>s q. notBefore q (pc (cxt\<lparr>schema := s\<rparr>) json q)"
  shows "notBefore p (parseRef pc cxt json p)"
proof -
  have "notBefore p (case pc (cxt\<lparr>schema := s\<rparr>) json p of
      Done v q \<Rightarrow> Done v (skipWhitespace (self (cxt\<lparr>schema := s\<rparr>)) json q)
    | Failed e q \<Rightarrow> Failed e q
    | Thrown x \<Rightarrow> Thrown x
    | ProtoKey \<Rightarrow> ProtoKey
    | Timeout \<Rightarrow> Timeout)" for s
    using pc [of p s] scannerAdvances_ws [OF adv]
    by (cases "pc (cxt\<lparr>schema := s\<rparr>) json p") (auto intro: le_trans)
  with pc show ?thesis
    by (simp add: parseRef_def parseRef_unit_call split: option.splits)
qed

lemma notBefore_parseNullable:
  "scannerAdvances (self cxt) \<Longrightarrow> (\<And>q. notBefore q (parseForm q)) \<Longrightarrow>
   notBefore p (parseNullable cxt json parseForm p)"
  by (simp add: parseNullable_def notBefore_tryParseToken)

lemma notBefore_genParse:
  "scannerAdvances (self cxt) \<Longrightarrow> (\<And>s q. notBefore q (pc (cxt\<lparr>schema := s\<rparr>) json q)) \<Longrightarrow>
   notBefore p (genParse form pc n cxt json p)"
  by (cases form)
     (simp_all add: notBefore_parseElements notBefore_parseValues notBefore_parseDiscriminator
        notBefore_parseProperties notBefore_parseEnum notBefore_parseType notBefore_parseRef)

lemma notBefore_parseCode:
  "scannerAdvances (self cxt) \<Longrightarrow> notBefore p (parseCode n cxt json p)"
proof (induction n arbitrary: cxt p)
  case 0
  show ?case by simp
next
  case (Suc n)
  have "notBefore q (parseCode n (cxt\<lparr>schema := s\<rparr>) json q)" for s q
    using Suc.IH [of "cxt\<lparr>schema := s\<rparr>" q] Suc.prems by simp
  with Suc.prems show ?case
    by (auto simp add: notBefore_parseEmpty split: option.splits
        intro!: notBefore_parseNullable notBefore_genParse)
qed


end
